theory Spec2Isabelle
  imports Main
begin

section \<open>Python values and the primitives that \<open>handler.py\<close> applies to them\<close>

text \<open>
  \<open>handler.py\<close> reads a webhook payload produced by \<open>json.loads\<close> with no schema check:
  every field is reached by subscripting, and the value found there may be of any JSON
  type. The payload is therefore a tree of Python values, not a typed record. A JSON
  object is an association list in insertion order (the parser leaves no repeated key).
  Numbers are Python's unbounded integers; numerals with a fraction or an exponent
  (Python floats) are not part of this model. Strings are lists of characters.
\<close>

datatype json =
    JNull
  | JBool bool
  | JInt int
  | JStr string
  | JArr "json list"
  | JObj "(string \<times> json) list"

text \<open>An exception that \<open>handler\<close> does not catch: it leaves the function and reaches the host.\<close>

datatype fault = KeyError string | TypeError | ValueError | IndexError | AttributeError

definition and_then :: "fault + 'a \<Rightarrow> ('a \<Rightarrow> fault + 'b) \<Rightarrow> fault + 'b" where
  "and_then m f = (case m of Inl e \<Rightarrow> Inl e | Inr x \<Rightarrow> f x)"

text \<open>\<open>v[k]\<close> with a string key: only a dict accepts it, and a missing key raises.\<close>

fun subscript :: "json \<Rightarrow> string \<Rightarrow> fault + json" where
  "subscript (JObj kvs) k = (case map_of kvs k of None \<Rightarrow> Inl (KeyError k) | Some v \<Rightarrow> Inr v)"
| "subscript v k = Inl TypeError"

text \<open>\<open>v[k1][k2]...\<close>, evaluated left to right.\<close>

fun lookup_path :: "json \<Rightarrow> string list \<Rightarrow> fault + json" where
  "lookup_path v [] = Inr v"
| "lookup_path v (k # ks) = and_then (subscript v k) (\<lambda>w. lookup_path w ks)"

text \<open>
  \<open>v == n\<close> for an integer \<open>n\<close>: Python's \<open>bool\<close> is a subclass of \<open>int\<close>, so \<open>True == 1\<close>
  and \<open>False == 0\<close>. \<open>v in xs\<close> compares with each element in turn.
\<close>

fun py_eq_int :: "json \<Rightarrow> int \<Rightarrow> bool" where
  "py_eq_int (JInt i) n = (i = n)"
| "py_eq_int (JBool b) n = ((if b then 1 else 0) = n)"
| "py_eq_int v n = False"

definition py_in_ints :: "json \<Rightarrow> int list \<Rightarrow> bool" where
  "py_in_ints v xs = list_ex (py_eq_int v) xs"

text \<open>\<open>v in xs\<close> for a sequence of strings: a value equals a string only if it is that string.\<close>

definition py_in_strs :: "json \<Rightarrow> string list \<Rightarrow> bool" where
  "py_in_strs v xs = list_ex (\<lambda>s. v = JStr s) xs"

text \<open>The truth value of an object, as \<open>if x:\<close> and \<open>not x\<close> take it.\<close>

fun py_truthy :: "json \<Rightarrow> bool" where
  "py_truthy JNull = False"
| "py_truthy (JBool b) = b"
| "py_truthy (JInt i) = (i \<noteq> 0)"
| "py_truthy (JStr s) = (s \<noteq> [])"
| "py_truthy (JArr xs) = (xs \<noteq> [])"
| "py_truthy (JObj kvs) = (kvs \<noteq> [])"

text \<open>\<open>matching_pr\<close> is \<open>Optional\<close>: \<open>None\<close> is false, anything else has its own truth value.\<close>

fun is_truthy :: "json option \<Rightarrow> bool" where
  "is_truthy None = False"
| "is_truthy (Some v) = py_truthy v"

text \<open>
  \<open>for x in v\<close>: a list gives its elements, a string its characters (strings of length
  one), a dict its keys; the other values are not iterable.
\<close>

fun py_iter :: "json \<Rightarrow> fault + json list" where
  "py_iter (JArr xs) = Inr xs"
| "py_iter (JStr s) = Inr (map (\<lambda>c. JStr [c]) s)"
| "py_iter (JObj kvs) = Inr (map (\<lambda>kv. JStr (fst kv)) kvs)"
| "py_iter v = Inl TypeError"

text \<open>
  \<open>xs[:n]\<close>: the first \<open>n\<close> elements, all of them when there are fewer; a negative \<open>n\<close>
  counts from the end. Strings and lists can be sliced; a dict or a scalar raises.
\<close>

definition slice_to :: "'a list \<Rightarrow> int \<Rightarrow> 'a list" where
  "slice_to xs n = (if 0 \<le> n then take (nat n) xs else take (length xs - nat (- n)) xs)"

fun py_slice_to :: "json \<Rightarrow> int \<Rightarrow> fault + json" where
  "py_slice_to (JStr s) n = Inr (JStr (slice_to s n))"
| "py_slice_to (JArr xs) n = Inr (JArr (slice_to xs n))"
| "py_slice_to v n = Inl TypeError"

text \<open>\<open>str(n)\<close> for an integer: decimal digits, with a minus sign when negative.\<close>

fun str_nat :: "nat \<Rightarrow> string" where
  "str_nat n =
     (if n < 10 then [''0123456789'' ! n]
      else str_nat (n div 10) @ [''0123456789'' ! (n mod 10)])"

declare str_nat.simps [simp del]

definition str_int :: "int \<Rightarrow> string" where
  "str_int i = (if i < 0 then CHR ''-'' # str_nat (nat (- i)) else str_nat (nat i))"

fun join :: "string \<Rightarrow> string list \<Rightarrow> string" where
  "join sep [] = []"
| "join sep [x] = x"
| "join sep (x # y # ys) = x @ sep @ join sep (y # ys)"

text \<open>\<open>str(xs)\<close> for a list of integers, as the f-string over \<open>config['repos']\<close> prints it.\<close>

definition repr_ints :: "int list \<Rightarrow> string" where
  "repr_ints xs = ''['' @ join '', '' (map str_int xs) @ '']''"

section \<open>The declarations of \<open>handler.py\<close>\<close>

record Config =
  repos :: "int list"
  branches :: "string list"
  conclusions :: "string list"
  watch_prs :: bool
  sha_length :: int
  message_template :: string

definition config :: Config where
  "config =
     \<lparr> repos = [23038334, 33104844],
       branches = [''master'', ''github-actions''],
       conclusions = [''failure'', ''action_required'', ''timed_out''],
       watch_prs = True,
       sha_length = 8,
       message_template =
         ''Build {conclusion} at {commit_desc} (by {committer}). Details: {commit_html_url}'' \<rparr>"

record LambdaHTTPEvent =
  headers :: "string \<rightharpoonup> string"
  multiValueHeaders :: "string \<rightharpoonup> string list"
  httpMethod :: string
  path :: string
  body :: string

record LambdaResponse =
  statusCode :: int
  body :: string

text \<open>
  What \<open>handler\<close> takes from Python's library and this development takes as given:
  \<^item> \<open>json_loads\<close> is \<open>json.loads\<close> on a string: \<open>Inr\<close> the parsed value, or \<open>Inl\<close> the text
    of the \<open>JSONDecodeError\<close> it raises (the one exception that \<open>handler\<close> catches; a parser
    that runs out of stack or memory is not modelled);
  \<^item> \<open>str_format\<close> is \<open>str.format\<close> with keyword arguments: the formatted string, or the
    exception raised for a template it cannot fill;
  \<^item> \<open>repr\<close> prints a list or a dict; \<open>repr_event\<close> and \<open>repr_response\<close> print the two
    dicts that the log lines of \<open>handler\<close> and \<open>send_reply\<close> interpolate.
  Every theorem below holds for any such functions.
\<close>

record library =
  json_loads :: "string \<Rightarrow> string + json"
  str_format :: "string \<Rightarrow> (string \<times> json) list \<Rightarrow> fault + string"
  repr :: "json \<Rightarrow> string"
  repr_event :: "LambdaHTTPEvent \<Rightarrow> string"
  repr_response :: "LambdaResponse \<Rightarrow> string"

text \<open>What an f-string field \<open>{v}\<close> prints: \<open>str(v)\<close>, which for a list or a dict is its \<open>repr\<close>.\<close>

fun py_str :: "(json \<Rightarrow> string) \<Rightarrow> json \<Rightarrow> string" where
  "py_str rep (JStr s) = s"
| "py_str rep (JInt i) = str_int i"
| "py_str rep (JBool b) = (if b then ''True'' else ''False'')"
| "py_str rep JNull = ''None''"
| "py_str rep v = rep v"

text \<open>Standard output is the list of the lines printed so far.\<close>

definition debug :: "string \<Rightarrow> string list \<Rightarrow> string list" where
  "debug msg out = out @ [''DEBUG: '' @ msg]"

definition send_reply ::
  "library \<Rightarrow> string list \<Rightarrow> LambdaResponse \<Rightarrow> string list \<times> (fault + LambdaResponse)" where
  "send_reply lib out resp = (debug (''Sending reply: '' @ repr_response lib resp) out, Inr resp)"

definition error ::
  "library \<Rightarrow> string list \<Rightarrow> string \<Rightarrow> string list \<times> (fault + LambdaResponse)" where
  "error lib out msg = send_reply lib out \<lparr> statusCode = 400, body = msg \<rparr>"

definition ok ::
  "library \<Rightarrow> string list \<Rightarrow> string \<Rightarrow> string list \<times> (fault + LambdaResponse)" where
  "ok lib out msg = send_reply lib out \<lparr> statusCode = 200, body = msg \<rparr>"

section \<open>The request handler\<close>

text \<open>
  A \<open>return ok(msg)\<close> in the middle of \<open>handler\<close> ends it with a reply; otherwise control
  goes on to the next statement with the variables bound so far.
\<close>

datatype 'a step = Return_ok string | Continue 'a

text \<open>
  Lines 150--166: the checks of \<open>action\<close>, \<open>check_suite.status\<close>,
  \<open>check_suite.conclusion\<close> and \<open>repository.id\<close>, in this order. The conclusion is compared
  with the tuple written in the code, not with \<open>config["conclusions"]\<close>. What goes on is
  \<open>check_suite\<close> and \<open>conclusion\<close>.
\<close>

definition early_filters :: "library \<Rightarrow> Config \<Rightarrow> json \<Rightarrow> fault + (json \<times> json) step" where
  "early_filters lib cfg payload =
     and_then (subscript payload ''action'') (\<lambda>action.
     if action \<noteq> JStr ''completed''
     then Inr (Return_ok ''Ignored based on action != completed'')
     else
     and_then (subscript payload ''check_suite'') (\<lambda>check_suite.
     and_then (subscript check_suite ''status'') (\<lambda>status.
     if status \<noteq> JStr ''completed''
     then Inr (Return_ok ''Ignored based on check_suite status != completed'')
     else
     and_then (subscript check_suite ''conclusion'') (\<lambda>conclusion.
     if \<not> py_in_strs conclusion [''failure'', ''action_required'', ''timed_out'']
     then Inr (Return_ok
       ''Ignored based on check_suite conclusion not in ('failure', 'action_required', 'timed_out')'')
     else
     and_then (lookup_path payload [''repository'', ''id'']) (\<lambda>base_repo_id.
     if \<not> py_in_ints base_repo_id (repos cfg)
     then Inr (Return_ok
       (''Ignored based on non-watched base repository ('' @ py_str (repr lib) base_repo_id @ '')''))
     else Inr (Continue (check_suite, conclusion)))))))"

text \<open>
  Lines 173--177: the loop over the pull requests. It leaves at the first one whose
  \<open>base.repo.id\<close> is watched; a pull request where that field cannot be read raises.
\<close>

fun scan_prs ::
  "library \<Rightarrow> Config \<Rightarrow> json list \<Rightarrow> string list \<Rightarrow> string list \<times> (fault + json option)" where
  "scan_prs lib cfg [] out = (out, Inr None)"
| "scan_prs lib cfg (pr # rest) out =
     (case lookup_path pr [''base'', ''repo'', ''id''] of
        Inl e \<Rightarrow> (out, Inl e)
      | Inr i \<Rightarrow>
          if py_in_ints i (repos cfg)
          then (debug (''PR '' @ py_str (repr lib) pr @ '' is a match'') out, Inr (Some pr))
          else scan_prs lib cfg rest out)"

text \<open>Lines 170--177: \<open>matching_pr\<close> stays \<open>None\<close> unless \<open>watch_prs\<close> is set.\<close>

definition find_matching_pr ::
  "library \<Rightarrow> Config \<Rightarrow> json \<Rightarrow> string list \<Rightarrow> string list \<times> (fault + json option)" where
  "find_matching_pr lib cfg check_suite out =
     (if watch_prs cfg then
        (let out1 = debug (''Looking for PRs in '' @ repr_ints (repos cfg)) out in
         case and_then (subscript check_suite ''pull_requests'') py_iter of
           Inl e \<Rightarrow> (out1, Inl e)
         | Inr prs \<Rightarrow> scan_prs lib cfg prs out1)
      else (out, Inr None))"

text \<open>The four keyword arguments of the template, lines 200--205.\<close>

record alert_vars =
  conclusion :: json
  commit_desc :: string
  committer :: json
  commit_html_url :: string

text \<open>Lines 190--194: the variables of the message when a pull request matched.\<close>

definition pr_vars :: "library \<Rightarrow> json \<Rightarrow> json \<Rightarrow> json \<Rightarrow> json \<Rightarrow> json \<Rightarrow> fault + alert_vars" where
  "pr_vars lib concl owner_base_url repo_name committer_name matching_pr =
     and_then (subscript matching_pr ''number'') (\<lambda>pr_num.
     Inr \<lparr> conclusion = concl,
           commit_desc = ''PR #'' @ py_str (repr lib) pr_num,
           committer = committer_name,
           commit_html_url =
             py_str (repr lib) owner_base_url @ ''/'' @ py_str (repr lib) repo_name @ ''/pull/''
             @ py_str (repr lib) pr_num @ ''#partial-pull-merging'' \<rparr>)"

text \<open>
  Lines 196--198: the variables of the message for a commit on a watched branch. (Slicing
  a dict raises \<open>TypeError\<close> up to Python 3.11 and \<open>KeyError\<close> from 3.12; the model has the
  former.)
\<close>

definition branch_vars ::
  "library \<Rightarrow> Config \<Rightarrow> json \<Rightarrow> json \<Rightarrow> json \<Rightarrow> json \<Rightarrow> json \<Rightarrow> json \<Rightarrow> fault + alert_vars" where
  "branch_vars lib cfg check_suite concl owner_base_url repo_name committer_name branch =
     and_then (subscript check_suite ''head_sha'') (\<lambda>head_sha.
     and_then (py_slice_to head_sha (sha_length cfg)) (\<lambda>sha.
     Inr \<lparr> conclusion = concl,
           commit_desc = py_str (repr lib) sha @ '' (branch '' @ py_str (repr lib) branch @ '')'',
           committer = committer_name,
           commit_html_url =
             py_str (repr lib) owner_base_url @ ''/'' @ py_str (repr lib) repo_name @ ''/commit/''
             @ py_str (repr lib) sha \<rparr>))"

text \<open>Lines 186--198: three fields read on either path, then \<open>if matching_pr:\<close>.\<close>

definition build_vars ::
  "library \<Rightarrow> Config \<Rightarrow> json \<Rightarrow> json \<Rightarrow> json \<Rightarrow> json option \<Rightarrow> json \<Rightarrow> fault + alert_vars" where
  "build_vars lib cfg payload check_suite concl matching_pr branch =
     and_then (lookup_path payload [''repository'', ''owner'', ''html_url'']) (\<lambda>owner_base_url.
     and_then (lookup_path payload [''repository'', ''name'']) (\<lambda>repo_name.
     and_then (lookup_path check_suite [''head_commit'', ''committer'', ''name'']) (\<lambda>committer_name.
     case matching_pr of
       None \<Rightarrow> branch_vars lib cfg check_suite concl owner_base_url repo_name committer_name branch
     | Some pr \<Rightarrow>
         if py_truthy pr
         then pr_vars lib concl owner_base_url repo_name committer_name pr
         else branch_vars lib cfg check_suite concl owner_base_url repo_name committer_name branch)))"

text \<open>
  Lines 150--198: from the parsed payload to either a reply that ignores the event or
  the variables of an alert. \<open>head_branch\<close> is read before \<open>matching_pr\<close> is tested.
\<close>

definition pipeline ::
  "library \<Rightarrow> Config \<Rightarrow> json \<Rightarrow> string list \<Rightarrow> string list \<times> (fault + alert_vars step)" where
  "pipeline lib cfg payload out =
     (case early_filters lib cfg payload of
        Inl e \<Rightarrow> (out, Inl e)
      | Inr (Return_ok msg) \<Rightarrow> (out, Inr (Return_ok msg))
      | Inr (Continue (check_suite, concl)) \<Rightarrow>
          (case find_matching_pr lib cfg check_suite out of
             (out1, Inl e) \<Rightarrow> (out1, Inl e)
           | (out1, Inr matching_pr) \<Rightarrow>
               (case subscript check_suite ''head_branch'' of
                  Inl e \<Rightarrow> (out1, Inl e)
                | Inr branch \<Rightarrow>
                    if \<not> is_truthy matching_pr \<and> \<not> py_in_strs branch (branches cfg)
                    then (out1, Inr (Return_ok ''Ignored based on no matching PR/branch''))
                    else
                      (let out2 =
                         (if \<not> is_truthy matching_pr
                          then debug (''Alerting on branch '' @ py_str (repr lib) branch) out1
                          else out1)
                       in (out2,
                           and_then
                             (build_vars lib cfg payload check_suite concl matching_pr branch)
                             (\<lambda>vars. Inr (Continue vars)))))))"

text \<open>
  \<open>handler\<close> with the configuration as an argument. The result is the lines printed and
  either the response returned or the exception that left the function.
\<close>

definition handler_with ::
  "library \<Rightarrow> Config \<Rightarrow> LambdaHTTPEvent \<Rightarrow> 'c \<Rightarrow> string list \<times> (fault + LambdaResponse)" where
  \<open>handler_with lib cfg event context =
     (let out0 = debug (''Hello. Event: '' @ repr_event lib event) [] in
      case headers event ''X-GitHub-Event'' of
        None \<Rightarrow> error lib out0 ''Missing X-GitHub-Event header''
      | Some event_type \<Rightarrow>
          if event_type \<noteq> ''check_suite''
          then ok lib out0 ''Ignored based on X-GitHub-Event value''
          else
            (case json_loads lib (LambdaHTTPEvent.body event) of
               Inl e \<Rightarrow> error lib out0 (''Couldn't parse body ('' @ e @ '')'')
             | Inr payload \<Rightarrow>
                 (case pipeline lib cfg payload out0 of
                    (out1, Inl e) \<Rightarrow> (out1, Inl e)
                  | (out1, Inr (Return_ok msg)) \<Rightarrow> ok lib out1 msg
                  | (out1, Inr (Continue vars)) \<Rightarrow>
                      (case str_format lib (message_template cfg)
                              [(''conclusion'', conclusion vars),
                               (''commit_desc'', JStr (commit_desc vars)),
                               (''committer'', committer vars),
                               (''commit_html_url'', JStr (commit_html_url vars))] of
                         Inl e \<Rightarrow> (out1, Inl e)
                       | Inr message \<Rightarrow>
                           ok lib (debug (''Message is: '' @ message) out1)
                             ''{"message": "We cared about this message!"}''))))\<close>

text \<open>\<open>handler\<close> as deployed: it reads the module's \<open>config\<close>.\<close>

definition handler ::
  "library \<Rightarrow> LambdaHTTPEvent \<Rightarrow> 'c \<Rightarrow> string list \<times> (fault + LambdaResponse)" where
  "handler lib event context = handler_with lib config event context"

section \<open>Payloads without the fields read late\<close>

text \<open>
  The fields that \<open>handler\<close> reads only after its first four checks (lines 170--198):
  four of \<open>check_suite\<close> and two of \<open>repository\<close>. \<open>without_late_fields\<close> deletes them
  from a payload and leaves everything else as it is.
\<close>

definition late_check_suite_fields :: "string list" where
  "late_check_suite_fields = [''pull_requests'', ''head_branch'', ''head_sha'', ''head_commit'']"

definition late_repository_fields :: "string list" where
  "late_repository_fields = [''name'', ''owner'']"

fun del_keys :: "string list \<Rightarrow> json \<Rightarrow> json" where
  "del_keys ks (JObj kvs) = JObj (filter (\<lambda>kv. fst kv \<notin> set ks) kvs)"
| "del_keys ks v = v"

fun at_key :: "string \<Rightarrow> (json \<Rightarrow> json) \<Rightarrow> json \<Rightarrow> json" where
  "at_key k f (JObj kvs) = JObj (map (\<lambda>kv. if fst kv = k then (k, f (snd kv)) else kv) kvs)"
| "at_key k f v = v"

definition without_late_fields :: "json \<Rightarrow> json" where
  "without_late_fields payload =
     at_key ''check_suite'' (del_keys late_check_suite_fields)
       (at_key ''repository'' (del_keys late_repository_fields) payload)"

section \<open>Example inputs\<close>

text \<open>
  The examples below run the handler on concrete events. They need a concrete library,
  and this one stands in for Python's: its parser knows the bodies listed in
  \<open>example_bodies\<close> (each a JSON text with the value \<open>json.loads\<close> gives for it) and
  rejects every other string with the message \<open>json.loads\<close> gives for \<open>not json\<close>; its
  formatter fills the fields \<open>{name}\<close> of a template that has nothing else in braces, as
  the shipped template is; what its \<open>repr\<close> functions print plays no role.
\<close>

definition example_pr :: "int \<Rightarrow> int \<Rightarrow> json" where
  "example_pr number repo_id =
     JObj [(''number'', JInt number), (''base'', JObj [(''repo'', JObj [(''id'', JInt repo_id)])])]"

definition example_sha :: string where
  "example_sha = ''0123456789abcdef0123456789abcdef01234567''"

definition example_check_suite :: "string \<Rightarrow> json list \<Rightarrow> string \<Rightarrow> string \<Rightarrow> json" where
  "example_check_suite concl prs branch sha =
     JObj
       [(''status'', JStr ''completed''),
        (''conclusion'', JStr concl),
        (''pull_requests'', JArr prs),
        (''head_branch'', JStr branch),
        (''head_sha'', JStr sha),
        (''head_commit'', JObj [(''committer'', JObj [(''name'', JStr ''Alice'')])])]"

definition example_repository :: json where
  "example_repository =
     JObj
       [(''id'', JInt 23038334),
        (''name'', JStr ''crawl''),
        (''owner'', JObj [(''html_url'', JStr ''https://github.com/crawl'')])]"

definition example_payload :: "string \<Rightarrow> json list \<Rightarrow> string \<Rightarrow> string \<Rightarrow> json" where
  "example_payload concl prs branch sha =
     JObj
       [(''action'', JStr ''completed''),
        (''check_suite'', example_check_suite concl prs branch sha),
        (''repository'', example_repository)]"

definition requested_text :: string where
  \<open>requested_text =
     ''{"action": "requested"}''\<close>

definition requested_payload :: json where
  "requested_payload =
     JObj [(''action'', JStr ''requested'')]"

definition in_progress_text :: string where
  \<open>in_progress_text =
     ''{"action": "completed", "check_suite": {"status": "in_progress"}}''\<close>

definition in_progress_payload :: json where
  "in_progress_payload =
     JObj
       [(''action'', JStr ''completed''),
        (''check_suite'', JObj [(''status'', JStr ''in_progress'')])]"

definition success_text :: string where
  \<open>success_text =
     ''{"action": "completed", "check_suite": {"status": "completed", ''
     @ ''"conclusion": "success"}}''\<close>

definition success_payload :: json where
  "success_payload =
     JObj
       [(''action'', JStr ''completed''),
        (''check_suite'', JObj [(''status'', JStr ''completed''), (''conclusion'', JStr ''success'')])]"

definition unwatched_text :: string where
  \<open>unwatched_text =
     ''{"action": "completed", "check_suite": {"status": "completed", ''
     @ ''"conclusion": "failure"}, "repository": {"id": 7}}''\<close>

definition unwatched_payload :: json where
  "unwatched_payload =
     JObj
       [(''action'', JStr ''completed''),
        (''check_suite'', JObj [(''status'', JStr ''completed''), (''conclusion'', JStr ''failure'')]),
        (''repository'', JObj [(''id'', JInt 7)])]"

definition feature_branch_text :: string where
  \<open>feature_branch_text =
     ''{"action": "completed", "check_suite": {"status": "completed", ''
     @ ''"conclusion": "failure", "pull_requests": [], ''
     @ ''"head_branch": "feature", ''
     @ ''"head_sha": "0123456789abcdef0123456789abcdef01234567", ''
     @ ''"head_commit": {"committer": {"name": "Alice"}}}, ''
     @ ''"repository": {"id": 23038334, "name": "crawl", ''
     @ ''"owner": {"html_url": "https://github.com/crawl"}}}''\<close>

definition feature_branch_payload :: json where
  "feature_branch_payload = example_payload ''failure'' [] ''feature'' example_sha"

definition master_branch_text :: string where
  \<open>master_branch_text =
     ''{"action": "completed", "check_suite": {"status": "completed", ''
     @ ''"conclusion": "failure", "pull_requests": [], ''
     @ ''"head_branch": "master", ''
     @ ''"head_sha": "0123456789abcdef0123456789abcdef01234567", ''
     @ ''"head_commit": {"committer": {"name": "Alice"}}}, ''
     @ ''"repository": {"id": 23038334, "name": "crawl", ''
     @ ''"owner": {"html_url": "https://github.com/crawl"}}}''\<close>

definition master_branch_payload :: json where
  "master_branch_payload = example_payload ''failure'' [] ''master'' example_sha"

definition with_pr_text :: string where
  \<open>with_pr_text =
     ''{"action": "completed", "check_suite": {"status": "completed", ''
     @ ''"conclusion": "failure", "pull_requests": [{"number": 42, ''
     @ ''"base": {"repo": {"id": 23038334}}}], "head_branch": "master", ''
     @ ''"head_sha": "0123456789abcdef0123456789abcdef01234567", ''
     @ ''"head_commit": {"committer": {"name": "Alice"}}}, ''
     @ ''"repository": {"id": 23038334, "name": "crawl", ''
     @ ''"owner": {"html_url": "https://github.com/crawl"}}}''\<close>

definition with_pr_payload :: json where
  "with_pr_payload = example_payload ''failure'' [example_pr 42 23038334] ''master'' example_sha"

definition timed_out_text :: string where
  \<open>timed_out_text =
     ''{"action": "completed", "check_suite": {"status": "completed", ''
     @ ''"conclusion": "timed_out", "pull_requests": [], ''
     @ ''"head_branch": "master", ''
     @ ''"head_sha": "0123456789abcdef0123456789abcdef01234567", ''
     @ ''"head_commit": {"committer": {"name": "Alice"}}}, ''
     @ ''"repository": {"id": 23038334, "name": "crawl", ''
     @ ''"owner": {"html_url": "https://github.com/crawl"}}}''\<close>

definition timed_out_payload :: json where
  "timed_out_payload = example_payload ''timed_out'' [] ''master'' example_sha"

definition short_sha_text :: string where
  \<open>short_sha_text =
     ''{"action": "completed", "check_suite": {"status": "completed", ''
     @ ''"conclusion": "failure", "pull_requests": [], ''
     @ ''"head_branch": "master", "head_sha": "abc123", ''
     @ ''"head_commit": {"committer": {"name": "Alice"}}}, ''
     @ ''"repository": {"id": 23038334, "name": "crawl", ''
     @ ''"owner": {"html_url": "https://github.com/crawl"}}}''\<close>

definition short_sha_payload :: json where
  "short_sha_payload = example_payload ''failure'' [] ''master'' ''abc123''"

definition example_bodies :: "(string \<times> json) list" where
  "example_bodies =
     [(requested_text, requested_payload),
      (in_progress_text, in_progress_payload),
      (success_text, success_payload),
      (unwatched_text, unwatched_payload),
      (feature_branch_text, feature_branch_payload),
      (master_branch_text, master_branch_payload),
      (with_pr_text, with_pr_payload),
      (timed_out_text, timed_out_payload),
      (short_sha_text, short_sha_payload)]"

definition example_loads :: "string \<Rightarrow> string + json" where
  "example_loads s =
     (case map_of example_bodies s of
        Some v \<Rightarrow> Inr v
      | None \<Rightarrow> Inl ''Expecting value: line 1 column 1 (char 0)'')"

function fill_template ::
  "(json \<Rightarrow> string) \<Rightarrow> string \<Rightarrow> (string \<times> json) list \<Rightarrow> fault + string" where
  "fill_template str [] kwargs = Inr []"
| "fill_template str (c # cs) kwargs =
     (if c = CHR ''{'' then
        (case map_of kwargs (takeWhile (\<lambda>d. d \<noteq> CHR ''}'') cs) of
           None \<Rightarrow> Inl (KeyError (takeWhile (\<lambda>d. d \<noteq> CHR ''}'') cs))
         | Some v \<Rightarrow>
             and_then (fill_template str (drop 1 (dropWhile (\<lambda>d. d \<noteq> CHR ''}'') cs)) kwargs)
               (\<lambda>r. Inr (str v @ r)))
      else and_then (fill_template str cs kwargs) (\<lambda>r. Inr (c # r)))"
  by pat_completeness auto
termination
  by (relation "measure (\<lambda>(str, t, kwargs). length t)")
     (auto simp: less_Suc_eq_le intro!: le_trans [OF diff_le_self length_dropWhile_le])

definition example_repr :: "json \<Rightarrow> string" where
  "example_repr v = ''<object>''"

definition example_library :: library where
  "example_library =
     \<lparr> json_loads = example_loads,
       str_format = fill_template (py_str example_repr),
       repr = example_repr,
       repr_event = (\<lambda>event. ''<event>''),
       repr_response = (\<lambda>resp. ''<response>'') \<rparr>"

text \<open>A request that carries \<open>check_suite\<close> under the given header name.\<close>

definition example_event :: "string \<Rightarrow> string \<Rightarrow> LambdaHTTPEvent" where
  "example_event header_name text =
     \<lparr> headers = [header_name \<mapsto> ''check_suite''],
       multiValueHeaders = [header_name \<mapsto> [''check_suite'']],
       httpMethod = ''POST'',
       path = ''/webhook'',
       LambdaHTTPEvent.body = text \<rparr>"

section \<open>Auxiliary facts\<close>

lemma and_then_simps [simp]:
  "and_then (Inl e) f = Inl e" "and_then (Inr x) f = f x"
  by (simp_all add: and_then_def)

lemma and_then_eq_Inr: "and_then m f = Inr y \<longleftrightarrow> (\<exists>x. m = Inr x \<and> f x = Inr y)"
  by (cases m) simp_all

lemma snd_ok: "snd (ok lib out msg) = Inr \<lparr> statusCode = 200, body = msg \<rparr>"
  by (simp add: ok_def send_reply_def)

lemma snd_error: "snd (error lib out msg) = Inr \<lparr> statusCode = 400, body = msg \<rparr>"
  by (simp add: error_def send_reply_def)

text \<open>Once the header is accepted and the body parsed, the rest of \<open>handler\<close> runs.\<close>

lemma handler_with_parsed:
  assumes "headers ev ''X-GitHub-Event'' = Some ''check_suite''"
    and "json_loads lib (LambdaHTTPEvent.body ev) = Inr payload"
  shows \<open>handler_with lib cfg ev ctx =
     (case pipeline lib cfg payload (debug (''Hello. Event: '' @ repr_event lib ev) []) of
        (out1, Inl e) \<Rightarrow> (out1, Inl e)
      | (out1, Inr (Return_ok msg)) \<Rightarrow> ok lib out1 msg
      | (out1, Inr (Continue vars)) \<Rightarrow>
          (case str_format lib (message_template cfg)
                  [(''conclusion'', conclusion vars),
                   (''commit_desc'', JStr (commit_desc vars)),
                   (''committer'', committer vars),
                   (''commit_html_url'', JStr (commit_html_url vars))] of
             Inl e \<Rightarrow> (out1, Inl e)
           | Inr message \<Rightarrow>
               ok lib (debug (''Message is: '' @ message) out1)
                 ''{"message": "We cared about this message!"}''))\<close>
  using assms by (simp add: handler_with_def)

lemma example_event_simps [simp]:
  "headers (example_event h t) k = (if k = h then Some ''check_suite'' else None)"
  "LambdaHTTPEvent.body (example_event h t) = t"
  by (simp_all add: example_event_def)

lemmas example_payload_defs =
  example_payload_def example_check_suite_def example_repository_def example_pr_def
  requested_payload_def in_progress_payload_def success_payload_def unwatched_payload_def
  feature_branch_payload_def master_branch_payload_def with_pr_payload_def
  timed_out_payload_def short_sha_payload_def

lemmas example_text_defs =
  requested_text_def in_progress_text_def success_text_def unwatched_text_def
  feature_branch_text_def master_branch_text_def with_pr_text_def
  timed_out_text_def short_sha_text_def

section \<open>An unparsable body\<close>

text \<open>
  Claim C8. When the \<open>X-GitHub-Event\<close> header is \<open>check_suite\<close> and the parser rejects
  the body with the error text \<open>e\<close>, the handler returns status 400 with the body
  \<open>Couldn't parse body (e)\<close>. It prints its greeting and the reply and nothing else: the
  checks on the payload are not entered, and the configuration plays no role.
\<close>

theorem unparsable_body_is_rejected:
  assumes "headers ev ''X-GitHub-Event'' = Some ''check_suite''"
    and "json_loads lib (LambdaHTTPEvent.body ev) = Inl e"
  shows "handler_with lib cfg ev ctx =
     ([''DEBUG: Hello. Event: '' @ repr_event lib ev,
       ''DEBUG: Sending reply: '' @ repr_response lib
          \<lparr> statusCode = 400, body = ''Couldn't parse body ('' @ e @ '')'' \<rparr>],
      Inr \<lparr> statusCode = 400, body = ''Couldn't parse body ('' @ e @ '')'' \<rparr>)"
  using assms by (simp add: handler_with_def error_def send_reply_def debug_def)

theorem unparsable_body_is_rejected_witness:
  "snd (handler example_library (example_event ''X-GitHub-Event'' ''not json'') ()) =
     Inr \<lparr> statusCode = 400,
           body = ''Couldn't parse body (Expecting value: line 1 column 1 (char 0))'' \<rparr>"
proof -
  have loads: "json_loads example_library ''not json''
      = Inl ''Expecting value: line 1 column 1 (char 0)''"
    by (simp add: example_library_def example_loads_def example_bodies_def example_text_defs)
  show ?thesis
    using unparsable_body_is_rejected
      [of "example_event ''X-GitHub-Event'' ''not json''" example_library
          "''Expecting value: line 1 column 1 (char 0)''" config "()"] loads
    by (simp add: handler_def)
qed

section \<open>The event-type header\<close>

text \<open>A reply to a request whose header was accepted and whose body parsed has status 200.\<close>

lemma parsed_reply_is_200:
  assumes "headers ev ''X-GitHub-Event'' = Some ''check_suite''"
    and "json_loads lib (LambdaHTTPEvent.body ev) = Inr payload"
    and "handler_with lib cfg ev ctx = (out, Inr r)"
  shows "statusCode r = 200"
  using assms(3) unfolding handler_with_parsed [OF assms(1,2)]
  by (auto simp: ok_def send_reply_def split: prod.splits sum.splits step.splits)

text \<open>
  Claim C2, as the code has it. \<open>event["headers"].get("X-GitHub-Event")\<close> is a lookup in a
  plain dict, so the key is matched exactly, letter case included: the handler answers
  status 400 with the body \<open>Missing X-GitHub-Event header\<close> exactly when the header map
  has no key spelled \<open>X-GitHub-Event\<close>. An event with no such header under any casing
  is among these, and so is one that has it under another casing only.
\<close>

theorem missing_header_iff_exact_key_absent:
  "snd (handler_with lib cfg ev ctx)
      = Inr \<lparr> statusCode = 400, body = ''Missing X-GitHub-Event header'' \<rparr>
   \<longleftrightarrow> headers ev ''X-GitHub-Event'' = None"
proof (cases "headers ev ''X-GitHub-Event''")
  case None
  then show ?thesis by (simp add: handler_with_def snd_error)
next
  case (Some event_type)
  show ?thesis
  proof (cases "event_type = ''check_suite''")
    case False
    with Some show ?thesis by (simp add: handler_with_def snd_ok)
  next
    case True
    show ?thesis
    proof (cases "json_loads lib (LambdaHTTPEvent.body ev)")
      case (Inl e)
      with Some True show ?thesis by (simp add: handler_with_def snd_error)
    next
      case (Inr payload)
      have "snd (handler_with lib cfg ev ctx) \<noteq> Inr \<lparr> statusCode = 400, body = b \<rparr>" for b
      proof
        assume a: "snd (handler_with lib cfg ev ctx) = Inr \<lparr> statusCode = 400, body = b \<rparr>"
        obtain out where
          "handler_with lib cfg ev ctx = (out, Inr \<lparr> statusCode = 400, body = b \<rparr>)"
          using a by (cases "handler_with lib cfg ev ctx") simp
        then have "statusCode \<lparr> statusCode = 400, body = b \<rparr> = 200"
          using Some True Inr
          by (intro parsed_reply_is_200 [of ev lib payload cfg ctx out]) simp_all
        then show False by simp
      qed
      with Some show ?thesis by simp
    qed
  qed
qed

text \<open>
  With the header spelled as GitHub sends it the request is not rejected for a missing
  header; with one letter in another case it is.
\<close>

theorem missing_header_iff_exact_key_absent_witness:
  "snd (handler example_library (example_event ''X-GitHub-Event'' requested_text) ())
      \<noteq> Inr \<lparr> statusCode = 400, body = ''Missing X-GitHub-Event header'' \<rparr>
   \<and> snd (handler example_library (example_event ''X-Github-Event'' requested_text) ())
      = Inr \<lparr> statusCode = 400, body = ''Missing X-GitHub-Event header'' \<rparr>"
  using missing_header_iff_exact_key_absent
          [of example_library config "example_event ''X-GitHub-Event'' requested_text" "()"]
        missing_header_iff_exact_key_absent
          [of example_library config "example_event ''X-Github-Event'' requested_text" "()"]
  by (simp add: handler_def)

text \<open>
  Claim C2 as stated fails: a request that supplies the header as \<open>x-github-event\<close> is
  answered as if it had none.
\<close>

theorem lowercase_header_is_not_found:
  "headers (example_event ''x-github-event'' requested_text) ''x-github-event''
      = Some ''check_suite''
   \<and> snd (handler example_library (example_event ''x-github-event'' requested_text) ())
      = Inr \<lparr> statusCode = 400, body = ''Missing X-GitHub-Event header'' \<rparr>"
  by (simp add: handler_def handler_with_def snd_error)

section \<open>The scan of the pull requests\<close>

text \<open>Only a non-empty dict can be subscripted with success, and such a value is true.\<close>

lemma subscript_Inr_truthy: "subscript v k = Inr w \<Longrightarrow> py_truthy v"
  by (cases v) auto

lemma lookup_path_truthy: "lookup_path v (k # ks) = Inr w \<Longrightarrow> py_truthy v"
  by (auto simp: and_then_eq_Inr dest: subscript_Inr_truthy)

text \<open>Pull requests that can be read and are not against a watched repository are passed over.\<close>

lemma scan_prs_skip:
  assumes "\<forall>q\<in>set pre. \<exists>i. lookup_path q [''base'', ''repo'', ''id''] = Inr i
              \<and> \<not> py_in_ints i (repos cfg)"
  shows "scan_prs lib cfg (pre @ rest) out = scan_prs lib cfg rest out"
  using assms by (induction pre) auto

lemma scan_prs_first_match:
  assumes "\<forall>q\<in>set pre. \<exists>i. lookup_path q [''base'', ''repo'', ''id''] = Inr i
              \<and> \<not> py_in_ints i (repos cfg)"
    and "lookup_path p [''base'', ''repo'', ''id''] = Inr i"
    and "py_in_ints i (repos cfg)"
  shows "scan_prs lib cfg (pre @ p # post) out
     = (debug (''PR '' @ py_str (repr lib) p @ '' is a match'') out, Inr (Some p))"
  using assms(2,3) by (simp add: scan_prs_skip [OF assms(1)])

lemma find_matching_pr_first_match:
  assumes "watch_prs cfg"
    and "subscript check_suite ''pull_requests'' = Inr (JArr (pre @ p # post))"
    and "\<forall>q\<in>set pre. \<exists>i. lookup_path q [''base'', ''repo'', ''id''] = Inr i
              \<and> \<not> py_in_ints i (repos cfg)"
    and "lookup_path p [''base'', ''repo'', ''id''] = Inr i"
    and "py_in_ints i (repos cfg)"
  shows "find_matching_pr lib cfg check_suite out
     = (out @ [''DEBUG: Looking for PRs in '' @ repr_ints (repos cfg),
               ''DEBUG: PR '' @ py_str (repr lib) p @ '' is a match''],
        Inr (Some p))"
  using assms(1,2) scan_prs_first_match [OF assms(3,4,5)]
  by (simp add: find_matching_pr_def debug_def)

text \<open>
  Claim C6. With \<open>watch_prs\<close> set, let the pull requests of the check suite be \<open>pre\<close>,
  then \<open>p\<close>, then \<open>post\<close>, where every pull request of \<open>pre\<close> has a \<open>base.repo.id\<close> that
  is not watched and \<open>p\<close> has one that is. Then \<open>matching_pr\<close> is \<open>p\<close>, the first match in
  the order of the sequence, whatever \<open>post\<close> holds (further matches included), and the
  loop prints one match line: it has left at \<open>p\<close>.
\<close>

theorem first_matching_pr_is_selected:
  assumes "watch_prs cfg"
    and "subscript check_suite ''pull_requests'' = Inr (JArr (pre @ p # post))"
    and "\<forall>q\<in>set pre. \<exists>i. lookup_path q [''base'', ''repo'', ''id''] = Inr i
              \<and> \<not> py_in_ints i (repos cfg)"
    and "lookup_path p [''base'', ''repo'', ''id''] = Inr i"
    and "py_in_ints i (repos cfg)"
  shows "find_matching_pr lib cfg check_suite out
     = (out @ [''DEBUG: Looking for PRs in '' @ repr_ints (repos cfg),
               ''DEBUG: PR '' @ py_str (repr lib) p @ '' is a match''],
        Inr (Some p))"
  by (rule find_matching_pr_first_match [OF assms])

text \<open>
  Three pull requests, against the repositories 1, 23038334 and 33104844: the last two
  are watched, and the second of the three is selected.
\<close>

theorem first_matching_pr_is_selected_witness:
  "snd (find_matching_pr example_library config
          (example_check_suite ''failure''
             [example_pr 7 1, example_pr 42 23038334, example_pr 43 33104844]
             ''feature'' example_sha) [])
     = Inr (Some (example_pr 42 23038334))"
proof -
  have "find_matching_pr example_library config
          (example_check_suite ''failure''
             ([example_pr 7 1] @ example_pr 42 23038334 # [example_pr 43 33104844])
             ''feature'' example_sha) []
     = ([] @ [''DEBUG: Looking for PRs in '' @ repr_ints (repos config),
              ''DEBUG: PR '' @ py_str (repr example_library) (example_pr 42 23038334)
                @ '' is a match''],
        Inr (Some (example_pr 42 23038334)))"
    by (rule first_matching_pr_is_selected
          [where pre = "[example_pr 7 1]" and post = "[example_pr 43 33104844]"
             and i = "JInt 23038334"])
       (simp_all add: config_def example_check_suite_def example_pr_def py_in_ints_def)
  then show ?thesis by simp
qed

section \<open>The variables of an alert\<close>

lemma pipeline_pr_path:
  assumes "early_filters lib cfg payload = Inr (Continue (check_suite, concl))"
    and "find_matching_pr lib cfg check_suite out = (out1, Inr (Some p))"
    and "py_truthy p"
    and "subscript check_suite ''head_branch'' = Inr branch"
    and "lookup_path payload [''repository'', ''owner'', ''html_url''] = Inr owner_base_url"
    and "lookup_path payload [''repository'', ''name''] = Inr repo_name"
    and "lookup_path check_suite [''head_commit'', ''committer'', ''name''] = Inr committer_name"
    and "subscript p ''number'' = Inr pr_num"
  shows "pipeline lib cfg payload out
     = (out1,
        Inr (Continue
          \<lparr> conclusion = concl,
            commit_desc = ''PR #'' @ py_str (repr lib) pr_num,
            committer = committer_name,
            commit_html_url =
              py_str (repr lib) owner_base_url @ ''/'' @ py_str (repr lib) repo_name
              @ ''/pull/'' @ py_str (repr lib) pr_num @ ''#partial-pull-merging'' \<rparr>))"
  using assms by (simp add: pipeline_def build_vars_def pr_vars_def del: lookup_path.simps)

lemma pipeline_branch_path:
  assumes "early_filters lib cfg payload = Inr (Continue (check_suite, concl))"
    and "find_matching_pr lib cfg check_suite out = (out1, Inr None)"
    and "subscript check_suite ''head_branch'' = Inr (JStr br)"
    and "br \<in> set (branches cfg)"
    and "lookup_path payload [''repository'', ''owner'', ''html_url''] = Inr owner_base_url"
    and "lookup_path payload [''repository'', ''name''] = Inr repo_name"
    and "lookup_path check_suite [''head_commit'', ''committer'', ''name''] = Inr committer_name"
    and "subscript check_suite ''head_sha'' = Inr (JStr s)"
  shows "pipeline lib cfg payload out
     = (out1 @ [''DEBUG: Alerting on branch '' @ br],
        Inr (Continue
          \<lparr> conclusion = concl,
            commit_desc = slice_to s (sha_length cfg) @ '' (branch '' @ br @ '')'',
            committer = committer_name,
            commit_html_url =
              py_str (repr lib) owner_base_url @ ''/'' @ py_str (repr lib) repo_name
              @ ''/commit/'' @ slice_to s (sha_length cfg) \<rparr>))"
  using assms
  by (simp add: pipeline_def build_vars_def branch_vars_def py_in_strs_def list_ex_iff debug_def
        del: lookup_path.simps)

text \<open>The example payloads pass the first four checks under the shipped configuration.\<close>

lemma example_early_filters:
  "early_filters lib config (example_payload ''failure'' prs branch sha)
     = Inr (Continue (example_check_suite ''failure'' prs branch sha, JStr ''failure''))"
  by (simp add: early_filters_def example_payload_def example_check_suite_def
        example_repository_def py_in_strs_def py_in_ints_def config_def)

lemma example_find_no_pr:
  "find_matching_pr lib config (example_check_suite concl [] branch sha) out
     = (out @ [''DEBUG: Looking for PRs in '' @ repr_ints (repos config)], Inr None)"
  by (simp add: find_matching_pr_def example_check_suite_def config_def debug_def)

lemma example_lookups:
  "subscript (example_check_suite concl prs branch sha) ''pull_requests'' = Inr (JArr prs)"
  "subscript (example_check_suite concl prs branch sha) ''head_branch'' = Inr (JStr branch)"
  "subscript (example_check_suite concl prs branch sha) ''head_sha'' = Inr (JStr sha)"
  "lookup_path (example_check_suite concl prs branch sha) [''head_commit'', ''committer'', ''name'']
     = Inr (JStr ''Alice'')"
  "lookup_path (example_payload concl prs branch sha) [''repository'', ''owner'', ''html_url'']
     = Inr (JStr ''https://github.com/crawl'')"
  "lookup_path (example_payload concl prs branch sha) [''repository'', ''name'']
     = Inr (JStr ''crawl'')"
  "lookup_path (example_pr number repo_id) [''base'', ''repo'', ''id''] = Inr (JInt repo_id)"
  "subscript (example_pr number repo_id) ''number'' = Inr (JInt number)"
  by (simp_all add: example_payload_def example_check_suite_def example_repository_def
        example_pr_def)

lemma str_int_42: "str_int 42 = ''42''"
  by (simp add: str_int_def str_nat.simps)

text \<open>
  Claim C3. Let the payload pass the first four checks, \<open>watch_prs\<close> be set, and the pull
  requests be \<open>pre\<close>, \<open>p\<close>, \<open>post\<close> with \<open>p\<close> the first against a watched repository. Then,
  whatever \<open>head_branch\<close> is (a watched branch included), the variables are those of the
  pull request: \<open>commit_desc\<close> is \<open>PR #\<close> and the number of \<open>p\<close>, and \<open>commit_html_url\<close> is the
  owner's URL, the repository's name, \<open>/pull/\<close>, the number and \<open>#partial-pull-merging\<close>.
  No line about the branch is printed.
\<close>

theorem matching_pr_takes_precedence:
  assumes "early_filters lib cfg payload = Inr (Continue (check_suite, concl))"
    and "watch_prs cfg"
    and "subscript check_suite ''pull_requests'' = Inr (JArr (pre @ p # post))"
    and "\<forall>q\<in>set pre. \<exists>i. lookup_path q [''base'', ''repo'', ''id''] = Inr i
              \<and> \<not> py_in_ints i (repos cfg)"
    and "lookup_path p [''base'', ''repo'', ''id''] = Inr i"
    and "py_in_ints i (repos cfg)"
    and "subscript check_suite ''head_branch'' = Inr branch"
    and "lookup_path payload [''repository'', ''owner'', ''html_url''] = Inr owner_base_url"
    and "lookup_path payload [''repository'', ''name''] = Inr repo_name"
    and "lookup_path check_suite [''head_commit'', ''committer'', ''name''] = Inr committer_name"
    and "subscript p ''number'' = Inr pr_num"
  shows "pipeline lib cfg payload out
     = (out @ [''DEBUG: Looking for PRs in '' @ repr_ints (repos cfg),
               ''DEBUG: PR '' @ py_str (repr lib) p @ '' is a match''],
        Inr (Continue
          \<lparr> conclusion = concl,
            commit_desc = ''PR #'' @ py_str (repr lib) pr_num,
            committer = committer_name,
            commit_html_url =
              py_str (repr lib) owner_base_url @ ''/'' @ py_str (repr lib) repo_name
              @ ''/pull/'' @ py_str (repr lib) pr_num @ ''#partial-pull-merging'' \<rparr>))"
proof -
  have "py_truthy p"
    using assms(5) by (rule lookup_path_truthy)
  with assms(1) find_matching_pr_first_match [OF assms(2-6)] show ?thesis
    using assms(7-11) by (rule pipeline_pr_path)
qed

text \<open>
  A failure on \<open>master\<close>, which is watched, with pull request 7 against repository 1,
  which is not, and pull request 42 against repository 23038334, which is.
\<close>

theorem matching_pr_takes_precedence_witness:
  "py_in_strs (JStr ''master'') (branches config)
   \<and> snd (pipeline example_library config
          (example_payload ''failure'' [example_pr 7 1, example_pr 42 23038334]
             ''master'' example_sha) [])
     = Inr (Continue
          \<lparr> conclusion = JStr ''failure'',
            commit_desc = ''PR #42'',
            committer = JStr ''Alice'',
            commit_html_url = ''https://github.com/crawl/crawl/pull/42#partial-pull-merging'' \<rparr>)"
proof -
  have "pipeline example_library config
          (example_payload ''failure'' ([example_pr 7 1] @ example_pr 42 23038334 # [])
             ''master'' example_sha) []
     = ([] @ [''DEBUG: Looking for PRs in '' @ repr_ints (repos config),
               ''DEBUG: PR '' @ py_str (repr example_library) (example_pr 42 23038334)
                 @ '' is a match''],
        Inr (Continue
          \<lparr> conclusion = JStr ''failure'',
            commit_desc = ''PR #'' @ py_str (repr example_library) (JInt 42),
            committer = JStr ''Alice'',
            commit_html_url =
              py_str (repr example_library) (JStr ''https://github.com/crawl'') @ ''/''
              @ py_str (repr example_library) (JStr ''crawl'')
              @ ''/pull/'' @ py_str (repr example_library) (JInt 42)
              @ ''#partial-pull-merging'' \<rparr>))"
    by (rule matching_pr_takes_precedence
          [where check_suite = "example_check_suite ''failure''
                   ([example_pr 7 1] @ example_pr 42 23038334 # []) ''master'' example_sha"
             and pre = "[example_pr 7 1]" and post = "[]"
             and i = "JInt 23038334" and branch = "JStr ''master''"])
       (simp_all add: example_early_filters example_lookups del: lookup_path.simps,
        simp_all add: config_def py_in_ints_def)
  then show ?thesis
    by (simp add: str_int_42 config_def py_in_strs_def)
qed

text \<open>
  Claim C7. Let the payload pass the first four checks, the scan end with no matching
  pull request, \<open>head_branch\<close> be a watched branch, and \<open>head_sha\<close> be a string; let
  \<open>sha_length\<close> be a length, that is, not negative. Then \<open>commit_desc\<close> is the first
  \<open>sha_length\<close> characters of \<open>head_sha\<close> followed by \<open> (branch \<close>, the branch and \<open>)\<close>, and
  \<open>commit_html_url\<close> is the owner's URL, \<open>/\<close>, the repository's name, \<open>/commit/\<close> and the
  same characters.
\<close>

theorem branch_path_variables:
  assumes "early_filters lib cfg payload = Inr (Continue (check_suite, concl))"
    and "find_matching_pr lib cfg check_suite out = (out1, Inr None)"
    and "subscript check_suite ''head_branch'' = Inr (JStr br)"
    and "br \<in> set (branches cfg)"
    and "lookup_path payload [''repository'', ''owner'', ''html_url''] = Inr owner_base_url"
    and "lookup_path payload [''repository'', ''name''] = Inr repo_name"
    and "lookup_path check_suite [''head_commit'', ''committer'', ''name''] = Inr committer_name"
    and "subscript check_suite ''head_sha'' = Inr (JStr s)"
    and "0 \<le> sha_length cfg"
  shows "pipeline lib cfg payload out
     = (out1 @ [''DEBUG: Alerting on branch '' @ br],
        Inr (Continue
          \<lparr> conclusion = concl,
            commit_desc = take (nat (sha_length cfg)) s @ '' (branch '' @ br @ '')'',
            committer = committer_name,
            commit_html_url =
              py_str (repr lib) owner_base_url @ ''/'' @ py_str (repr lib) repo_name
              @ ''/commit/'' @ take (nat (sha_length cfg)) s \<rparr>))"
  using pipeline_branch_path [OF assms(1-8)] assms(9) by (simp add: slice_to_def)

theorem branch_path_variables_witness:
  "snd (pipeline example_library config master_branch_payload [])
     = Inr (Continue
          \<lparr> conclusion = JStr ''failure'',
            commit_desc = ''01234567 (branch master)'',
            committer = JStr ''Alice'',
            commit_html_url = ''https://github.com/crawl/crawl/commit/01234567'' \<rparr>)"
proof -
  have "pipeline example_library config
          (example_payload ''failure'' [] ''master'' example_sha) []
     = (([] @ [''DEBUG: Looking for PRs in '' @ repr_ints (repos config)])
          @ [''DEBUG: Alerting on branch '' @ ''master''],
        Inr (Continue
          \<lparr> conclusion = JStr ''failure'',
            commit_desc = take (nat (sha_length config)) example_sha
              @ '' (branch '' @ ''master'' @ '')'',
            committer = JStr ''Alice'',
            commit_html_url =
              py_str (repr example_library) (JStr ''https://github.com/crawl'') @ ''/''
              @ py_str (repr example_library) (JStr ''crawl'')
              @ ''/commit/'' @ take (nat (sha_length config)) example_sha \<rparr>))"
    by (rule branch_path_variables
          [where check_suite = "example_check_suite ''failure'' [] ''master'' example_sha"])
       (simp_all add: example_early_filters example_lookups example_find_no_pr
          del: lookup_path.simps,
        simp_all add: config_def)
  then show ?thesis
    by (simp add: master_branch_payload_def config_def example_sha_def)
qed

text \<open>
  Claim C9. On the same path, when \<open>sha_length\<close> is at least the length of \<open>head_sha\<close>,
  the slice is the whole of \<open>head_sha\<close>: nothing is raised and nothing is added, and
  \<open>commit_desc\<close> and \<open>commit_html_url\<close> hold the full string.
\<close>

theorem short_sha_is_kept_whole:
  assumes "early_filters lib cfg payload = Inr (Continue (check_suite, concl))"
    and "find_matching_pr lib cfg check_suite out = (out1, Inr None)"
    and "subscript check_suite ''head_branch'' = Inr (JStr br)"
    and "br \<in> set (branches cfg)"
    and "lookup_path payload [''repository'', ''owner'', ''html_url''] = Inr owner_base_url"
    and "lookup_path payload [''repository'', ''name''] = Inr repo_name"
    and "lookup_path check_suite [''head_commit'', ''committer'', ''name''] = Inr committer_name"
    and "subscript check_suite ''head_sha'' = Inr (JStr s)"
    and "int (length s) \<le> sha_length cfg"
  shows "py_slice_to (JStr s) (sha_length cfg) = Inr (JStr s)
   \<and> pipeline lib cfg payload out
     = (out1 @ [''DEBUG: Alerting on branch '' @ br],
        Inr (Continue
          \<lparr> conclusion = concl,
            commit_desc = s @ '' (branch '' @ br @ '')'',
            committer = committer_name,
            commit_html_url =
              py_str (repr lib) owner_base_url @ ''/'' @ py_str (repr lib) repo_name
              @ ''/commit/'' @ s \<rparr>))"
proof -
  have "slice_to s (sha_length cfg) = s"
    using assms(9) by (simp add: slice_to_def)
  with pipeline_branch_path [OF assms(1-8)] show ?thesis by simp
qed

theorem short_sha_is_kept_whole_witness:
  "snd (pipeline example_library config short_sha_payload [])
     = Inr (Continue
          \<lparr> conclusion = JStr ''failure'',
            commit_desc = ''abc123 (branch master)'',
            committer = JStr ''Alice'',
            commit_html_url = ''https://github.com/crawl/crawl/commit/abc123'' \<rparr>)"
proof -
  have "py_slice_to (JStr ''abc123'') (sha_length config) = Inr (JStr ''abc123'')
   \<and> pipeline example_library config
          (example_payload ''failure'' [] ''master'' ''abc123'') []
     = (([] @ [''DEBUG: Looking for PRs in '' @ repr_ints (repos config)])
          @ [''DEBUG: Alerting on branch '' @ ''master''],
        Inr (Continue
          \<lparr> conclusion = JStr ''failure'',
            commit_desc = ''abc123'' @ '' (branch '' @ ''master'' @ '')'',
            committer = JStr ''Alice'',
            commit_html_url =
              py_str (repr example_library) (JStr ''https://github.com/crawl'') @ ''/''
              @ py_str (repr example_library) (JStr ''crawl'')
              @ ''/commit/'' @ ''abc123'' \<rparr>))"
    by (rule short_sha_is_kept_whole
          [where check_suite = "example_check_suite ''failure'' [] ''master'' ''abc123''"])
       (simp_all add: example_early_filters example_lookups example_find_no_pr
          del: lookup_path.simps,
        simp_all add: config_def)
  then show ?thesis
    by (simp add: short_sha_payload_def)
qed

section \<open>The first four checks, one by one\<close>

lemma early_filters_action:
  assumes "subscript payload ''action'' = Inr a" and "a \<noteq> JStr ''completed''"
  shows "early_filters lib cfg payload = Inr (Return_ok ''Ignored based on action != completed'')"
  using assms by (simp add: early_filters_def)

lemma early_filters_status:
  assumes "subscript payload ''action'' = Inr (JStr ''completed'')"
    and "subscript payload ''check_suite'' = Inr check_suite"
    and "subscript check_suite ''status'' = Inr status"
    and "status \<noteq> JStr ''completed''"
  shows "early_filters lib cfg payload
     = Inr (Return_ok ''Ignored based on check_suite status != completed'')"
  using assms by (simp add: early_filters_def)

lemma early_filters_conclusion:
  assumes "subscript payload ''action'' = Inr (JStr ''completed'')"
    and "subscript payload ''check_suite'' = Inr check_suite"
    and "subscript check_suite ''status'' = Inr (JStr ''completed'')"
    and "subscript check_suite ''conclusion'' = Inr concl"
    and "\<not> py_in_strs concl [''failure'', ''action_required'', ''timed_out'']"
  shows "early_filters lib cfg payload
     = Inr (Return_ok
        ''Ignored based on check_suite conclusion not in ('failure', 'action_required', 'timed_out')'')"
  using assms by (simp add: early_filters_def)

lemma early_filters_repository:
  assumes "subscript payload ''action'' = Inr (JStr ''completed'')"
    and "subscript payload ''check_suite'' = Inr check_suite"
    and "subscript check_suite ''status'' = Inr (JStr ''completed'')"
    and "subscript check_suite ''conclusion'' = Inr concl"
    and "py_in_strs concl [''failure'', ''action_required'', ''timed_out'']"
    and "lookup_path payload [''repository'', ''id''] = Inr base_repo_id"
    and "\<not> py_in_ints base_repo_id (repos cfg)"
  shows "early_filters lib cfg payload
     = Inr (Return_ok (''Ignored based on non-watched base repository (''
          @ py_str (repr lib) base_repo_id @ '')''))"
  using assms by (simp add: early_filters_def del: lookup_path.simps)

lemma early_filters_pass:
  assumes "subscript payload ''action'' = Inr (JStr ''completed'')"
    and "subscript payload ''check_suite'' = Inr check_suite"
    and "subscript check_suite ''status'' = Inr (JStr ''completed'')"
    and "subscript check_suite ''conclusion'' = Inr concl"
    and "py_in_strs concl [''failure'', ''action_required'', ''timed_out'']"
    and "lookup_path payload [''repository'', ''id''] = Inr base_repo_id"
    and "py_in_ints base_repo_id (repos cfg)"
  shows "early_filters lib cfg payload = Inr (Continue (check_suite, concl))"
  using assms by (simp add: early_filters_def del: lookup_path.simps)

text \<open>A reply from the first four checks comes from one of them.\<close>

lemma early_filters_Return_ok_cases:
  assumes "early_filters lib cfg payload = Inr (Return_ok msg)"
  shows "(\<exists>a. subscript payload ''action'' = Inr a \<and> a \<noteq> JStr ''completed'')
   \<or> (\<exists>check_suite status.
         subscript payload ''action'' = Inr (JStr ''completed'')
         \<and> subscript payload ''check_suite'' = Inr check_suite
         \<and> subscript check_suite ''status'' = Inr status
         \<and> status \<noteq> JStr ''completed'')
   \<or> (\<exists>check_suite concl.
         subscript payload ''action'' = Inr (JStr ''completed'')
         \<and> subscript payload ''check_suite'' = Inr check_suite
         \<and> subscript check_suite ''status'' = Inr (JStr ''completed'')
         \<and> subscript check_suite ''conclusion'' = Inr concl
         \<and> \<not> py_in_strs concl [''failure'', ''action_required'', ''timed_out''])
   \<or> (\<exists>check_suite concl base_repo_id.
         subscript payload ''action'' = Inr (JStr ''completed'')
         \<and> subscript payload ''check_suite'' = Inr check_suite
         \<and> subscript check_suite ''status'' = Inr (JStr ''completed'')
         \<and> subscript check_suite ''conclusion'' = Inr concl
         \<and> py_in_strs concl [''failure'', ''action_required'', ''timed_out'']
         \<and> lookup_path payload [''repository'', ''id''] = Inr base_repo_id
         \<and> \<not> py_in_ints base_repo_id (repos cfg))"
proof -
  obtain a where a: "subscript payload ''action'' = Inr a"
    using assms by (cases "subscript payload ''action''") (simp_all add: early_filters_def)
  show ?thesis
  proof (cases "a = JStr ''completed''")
    case False
    with a show ?thesis by blast
  next
    case action: True
    obtain check_suite where cs: "subscript payload ''check_suite'' = Inr check_suite"
      using assms a action
      by (cases "subscript payload ''check_suite''") (simp_all add: early_filters_def)
    obtain status where st: "subscript check_suite ''status'' = Inr status"
      using assms a action cs
      by (cases "subscript check_suite ''status''") (simp_all add: early_filters_def)
    show ?thesis
    proof (cases "status = JStr ''completed''")
      case False
      with a action cs st show ?thesis by blast
    next
      case status: True
      obtain concl where c: "subscript check_suite ''conclusion'' = Inr concl"
        using assms a action cs st status
        by (cases "subscript check_suite ''conclusion''") (simp_all add: early_filters_def)
      show ?thesis
      proof (cases "py_in_strs concl [''failure'', ''action_required'', ''timed_out'']")
        case False
        with a action cs st status c show ?thesis by blast
      next
        case concl: True
        obtain base_repo_id where
          i: "lookup_path payload [''repository'', ''id''] = Inr base_repo_id"
          using assms a action cs st status c concl
          by (cases "lookup_path payload [''repository'', ''id'']")
             (simp_all add: early_filters_def del: lookup_path.simps)
        have "\<not> py_in_ints base_repo_id (repos cfg)"
          using assms a action cs st status c concl i
          by (auto simp: early_filters_def simp del: lookup_path.simps)
        with a action cs st status c concl i show ?thesis by blast
      qed
    qed
  qed
qed

section \<open>Replies that ignore the event\<close>

lemma handler_with_early_reply:
  assumes "headers ev ''X-GitHub-Event'' = Some ''check_suite''"
    and "json_loads lib (LambdaHTTPEvent.body ev) = Inr payload"
    and "early_filters lib cfg payload = Inr (Return_ok msg)"
  shows "handler_with lib cfg ev ctx =
     ([''DEBUG: Hello. Event: '' @ repr_event lib ev,
       ''DEBUG: Sending reply: '' @ repr_response lib \<lparr> statusCode = 200, body = msg \<rparr>],
      Inr \<lparr> statusCode = 200, body = msg \<rparr>)"
  using assms(3)
  by (simp add: handler_with_parsed [OF assms(1,2)] pipeline_def ok_def send_reply_def debug_def)

lemma handler_with_no_match:
  assumes "headers ev ''X-GitHub-Event'' = Some ''check_suite''"
    and "json_loads lib (LambdaHTTPEvent.body ev) = Inr payload"
    and "early_filters lib cfg payload = Inr (Continue (check_suite, concl))"
    and "snd (find_matching_pr lib cfg check_suite
           (debug (''Hello. Event: '' @ repr_event lib ev) [])) = Inr None"
    and "subscript check_suite ''head_branch'' = Inr branch"
    and "\<not> py_in_strs branch (branches cfg)"
  shows "snd (handler_with lib cfg ev ctx)
     = Inr \<lparr> statusCode = 200, body = ''Ignored based on no matching PR/branch'' \<rparr>"
proof -
  obtain out1 where
    "find_matching_pr lib cfg check_suite (debug (''Hello. Event: '' @ repr_event lib ev) [])
       = (out1, Inr None)"
    using assms(4)
    by (cases "find_matching_pr lib cfg check_suite
          (debug (''Hello. Event: '' @ repr_event lib ev) [])") simp
  then show ?thesis
    using assms(3,5,6)
    by (simp add: handler_with_parsed [OF assms(1,2)] pipeline_def snd_ok)
qed

text \<open>
  Claim C5. For a request whose header is accepted and whose body parses, the checks
  run in the order \<open>action\<close>, \<open>check_suite.status\<close>, \<open>check_suite.conclusion\<close>,
  \<open>repository.id\<close>, pull request or branch. Each line below supposes that the checks
  before it passed and that the fields read so far are there, and nothing about any
  field read later: the first check that fails gives a reply of status 200 whose body
  says which check it was. In particular, when \<open>action\<close> is not \<open>completed\<close> the reply is
  \<open>Ignored based on action != completed\<close> whatever else the payload holds or lacks.
\<close>

theorem checks_run_in_order:
  assumes "headers ev ''X-GitHub-Event'' = Some ''check_suite''"
    and "json_loads lib (LambdaHTTPEvent.body ev) = Inr payload"
  shows
    "(subscript payload ''action'' = Inr a \<and> a \<noteq> JStr ''completed''
        \<longrightarrow> snd (handler_with lib cfg ev ctx)
            = Inr \<lparr> statusCode = 200, body = ''Ignored based on action != completed'' \<rparr>)
     \<and> (subscript payload ''action'' = Inr (JStr ''completed'')
        \<and> subscript payload ''check_suite'' = Inr check_suite
        \<and> subscript check_suite ''status'' = Inr status \<and> status \<noteq> JStr ''completed''
        \<longrightarrow> snd (handler_with lib cfg ev ctx)
            = Inr \<lparr> statusCode = 200,
                    body = ''Ignored based on check_suite status != completed'' \<rparr>)
     \<and> (subscript payload ''action'' = Inr (JStr ''completed'')
        \<and> subscript payload ''check_suite'' = Inr check_suite
        \<and> subscript check_suite ''status'' = Inr (JStr ''completed'')
        \<and> subscript check_suite ''conclusion'' = Inr concl
        \<and> \<not> py_in_strs concl [''failure'', ''action_required'', ''timed_out'']
        \<longrightarrow> snd (handler_with lib cfg ev ctx)
            = Inr \<lparr> statusCode = 200,
                    body = ''Ignored based on check_suite conclusion not in ''
                      @ ''('failure', 'action_required', 'timed_out')'' \<rparr>)
     \<and> (subscript payload ''action'' = Inr (JStr ''completed'')
        \<and> subscript payload ''check_suite'' = Inr check_suite
        \<and> subscript check_suite ''status'' = Inr (JStr ''completed'')
        \<and> subscript check_suite ''conclusion'' = Inr concl
        \<and> py_in_strs concl [''failure'', ''action_required'', ''timed_out'']
        \<and> lookup_path payload [''repository'', ''id''] = Inr base_repo_id
        \<and> \<not> py_in_ints base_repo_id (repos cfg)
        \<longrightarrow> snd (handler_with lib cfg ev ctx)
            = Inr \<lparr> statusCode = 200,
                    body = ''Ignored based on non-watched base repository (''
                      @ py_str (repr lib) base_repo_id @ '')'' \<rparr>)
     \<and> (subscript payload ''action'' = Inr (JStr ''completed'')
        \<and> subscript payload ''check_suite'' = Inr check_suite
        \<and> subscript check_suite ''status'' = Inr (JStr ''completed'')
        \<and> subscript check_suite ''conclusion'' = Inr concl
        \<and> py_in_strs concl [''failure'', ''action_required'', ''timed_out'']
        \<and> lookup_path payload [''repository'', ''id''] = Inr base_repo_id
        \<and> py_in_ints base_repo_id (repos cfg)
        \<and> snd (find_matching_pr lib cfg check_suite
                 (debug (''Hello. Event: '' @ repr_event lib ev) [])) = Inr None
        \<and> subscript check_suite ''head_branch'' = Inr branch
        \<and> \<not> py_in_strs branch (branches cfg)
        \<longrightarrow> snd (handler_with lib cfg ev ctx)
            = Inr \<lparr> statusCode = 200, body = ''Ignored based on no matching PR/branch'' \<rparr>)"
proof (intro conjI impI; elim conjE)
  assume "subscript payload ''action'' = Inr a" "a \<noteq> JStr ''completed''"
  then show "snd (handler_with lib cfg ev ctx)
      = Inr \<lparr> statusCode = 200, body = ''Ignored based on action != completed'' \<rparr>"
    by (simp add: handler_with_early_reply [OF assms early_filters_action])
next
  assume "subscript payload ''action'' = Inr (JStr ''completed'')"
    "subscript payload ''check_suite'' = Inr check_suite"
    "subscript check_suite ''status'' = Inr status" "status \<noteq> JStr ''completed''"
  then show "snd (handler_with lib cfg ev ctx)
      = Inr \<lparr> statusCode = 200, body = ''Ignored based on check_suite status != completed'' \<rparr>"
    by (simp add: handler_with_early_reply [OF assms early_filters_status])
next
  assume "subscript payload ''action'' = Inr (JStr ''completed'')"
    "subscript payload ''check_suite'' = Inr check_suite"
    "subscript check_suite ''status'' = Inr (JStr ''completed'')"
    "subscript check_suite ''conclusion'' = Inr concl"
    "\<not> py_in_strs concl [''failure'', ''action_required'', ''timed_out'']"
  then show "snd (handler_with lib cfg ev ctx)
      = Inr \<lparr> statusCode = 200,
              body = ''Ignored based on check_suite conclusion not in ''
                @ ''('failure', 'action_required', 'timed_out')'' \<rparr>"
    by (simp add: handler_with_early_reply [OF assms early_filters_conclusion])
next
  assume "subscript payload ''action'' = Inr (JStr ''completed'')"
    "subscript payload ''check_suite'' = Inr check_suite"
    "subscript check_suite ''status'' = Inr (JStr ''completed'')"
    "subscript check_suite ''conclusion'' = Inr concl"
    "py_in_strs concl [''failure'', ''action_required'', ''timed_out'']"
    "lookup_path payload [''repository'', ''id''] = Inr base_repo_id"
    "\<not> py_in_ints base_repo_id (repos cfg)"
  then show "snd (handler_with lib cfg ev ctx)
      = Inr \<lparr> statusCode = 200,
              body = ''Ignored based on non-watched base repository (''
                @ py_str (repr lib) base_repo_id @ '')'' \<rparr>"
    by (simp add: handler_with_early_reply [OF assms early_filters_repository]
          del: lookup_path.simps)
next
  assume passed: "subscript payload ''action'' = Inr (JStr ''completed'')"
    "subscript payload ''check_suite'' = Inr check_suite"
    "subscript check_suite ''status'' = Inr (JStr ''completed'')"
    "subscript check_suite ''conclusion'' = Inr concl"
    "py_in_strs concl [''failure'', ''action_required'', ''timed_out'']"
    "lookup_path payload [''repository'', ''id''] = Inr base_repo_id"
    "py_in_ints base_repo_id (repos cfg)"
    and rest: "snd (find_matching_pr lib cfg check_suite
                 (debug (''Hello. Event: '' @ repr_event lib ev) [])) = Inr None"
    "subscript check_suite ''head_branch'' = Inr branch"
    "\<not> py_in_strs branch (branches cfg)"
  from passed have "early_filters lib cfg payload = Inr (Continue (check_suite, concl))"
    by (rule early_filters_pass)
  then show "snd (handler_with lib cfg ev ctx)
      = Inr \<lparr> statusCode = 200, body = ''Ignored based on no matching PR/branch'' \<rparr>"
    using rest by (rule handler_with_no_match [OF assms])
qed

lemma example_loads:
  "json_loads example_library requested_text = Inr requested_payload"
  "json_loads example_library in_progress_text = Inr in_progress_payload"
  "json_loads example_library success_text = Inr success_payload"
  "json_loads example_library unwatched_text = Inr unwatched_payload"
  "json_loads example_library feature_branch_text = Inr feature_branch_payload"
  "json_loads example_library master_branch_text = Inr master_branch_payload"
  "json_loads example_library with_pr_text = Inr with_pr_payload"
  "json_loads example_library timed_out_text = Inr timed_out_payload"
  "json_loads example_library short_sha_text = Inr short_sha_payload"
  by (simp_all add: example_library_def example_loads_def example_bodies_def example_text_defs)

lemma str_int_7: "str_int 7 = ''7''"
  by (simp add: str_int_def str_nat.simps)

text \<open>
  Five requests, one stopped by each check. The first four payloads hold nothing but the
  fields read up to the check that stops them.
\<close>

theorem checks_run_in_order_witness:
  "snd (handler example_library (example_event ''X-GitHub-Event'' requested_text) ())
     = Inr \<lparr> statusCode = 200, body = ''Ignored based on action != completed'' \<rparr>
   \<and> snd (handler example_library (example_event ''X-GitHub-Event'' in_progress_text) ())
     = Inr \<lparr> statusCode = 200, body = ''Ignored based on check_suite status != completed'' \<rparr>
   \<and> snd (handler example_library (example_event ''X-GitHub-Event'' success_text) ())
     = Inr \<lparr> statusCode = 200,
             body = ''Ignored based on check_suite conclusion not in ''
               @ ''('failure', 'action_required', 'timed_out')'' \<rparr>
   \<and> snd (handler example_library (example_event ''X-GitHub-Event'' unwatched_text) ())
     = Inr \<lparr> statusCode = 200, body = ''Ignored based on non-watched base repository (7)'' \<rparr>
   \<and> snd (handler example_library (example_event ''X-GitHub-Event'' feature_branch_text) ())
     = Inr \<lparr> statusCode = 200, body = ''Ignored based on no matching PR/branch'' \<rparr>"
proof -
  note order = checks_run_in_order [where lib = example_library and cfg = config and ctx = "()"]
  have 1: "snd (handler example_library (example_event ''X-GitHub-Event'' requested_text) ())
     = Inr \<lparr> statusCode = 200, body = ''Ignored based on action != completed'' \<rparr>"
    using order
      [where ev = "example_event ''X-GitHub-Event'' requested_text"
         and payload = requested_payload and a = "JStr ''requested''"]
    by (simp add: handler_def example_loads requested_payload_def)
  have 2: "snd (handler example_library (example_event ''X-GitHub-Event'' in_progress_text) ())
     = Inr \<lparr> statusCode = 200, body = ''Ignored based on check_suite status != completed'' \<rparr>"
    using order
      [where ev = "example_event ''X-GitHub-Event'' in_progress_text"
         and payload = in_progress_payload
         and check_suite = "JObj [(''status'', JStr ''in_progress'')]"
         and status = "JStr ''in_progress''"]
    by (simp add: handler_def example_loads in_progress_payload_def)
  have 3: "snd (handler example_library (example_event ''X-GitHub-Event'' success_text) ())
     = Inr \<lparr> statusCode = 200,
             body = ''Ignored based on check_suite conclusion not in ''
               @ ''('failure', 'action_required', 'timed_out')'' \<rparr>"
    using order
      [where ev = "example_event ''X-GitHub-Event'' success_text"
         and payload = success_payload
         and check_suite =
           "JObj [(''status'', JStr ''completed''), (''conclusion'', JStr ''success'')]"
         and concl = "JStr ''success''"]
    by (simp add: handler_def example_loads success_payload_def py_in_strs_def)
  have 4: "snd (handler example_library (example_event ''X-GitHub-Event'' unwatched_text) ())
     = Inr \<lparr> statusCode = 200, body = ''Ignored based on non-watched base repository (7)'' \<rparr>"
    using order
      [where ev = "example_event ''X-GitHub-Event'' unwatched_text"
         and payload = unwatched_payload
         and check_suite =
           "JObj [(''status'', JStr ''completed''), (''conclusion'', JStr ''failure'')]"
         and concl = "JStr ''failure''" and base_repo_id = "JInt 7"]
    by (simp add: handler_def example_loads unwatched_payload_def py_in_strs_def py_in_ints_def
          config_def str_int_7)
  have 5: "snd (handler example_library (example_event ''X-GitHub-Event'' feature_branch_text) ())
     = Inr \<lparr> statusCode = 200, body = ''Ignored based on no matching PR/branch'' \<rparr>"
    using order
      [where ev = "example_event ''X-GitHub-Event'' feature_branch_text"
         and payload = feature_branch_payload
         and check_suite = "example_check_suite ''failure'' [] ''feature'' example_sha"
         and concl = "JStr ''failure''" and base_repo_id = "JInt 23038334"
         and branch = "JStr ''feature''"]
    by (simp add: handler_def example_loads feature_branch_payload_def example_lookups
          example_find_no_pr py_in_strs_def
          del: lookup_path.simps)
       (simp add: example_payload_def example_check_suite_def example_repository_def
          py_in_ints_def config_def)
  from 1 2 3 4 5 show ?thesis by (intro conjI)
qed

section \<open>What the first four checks read\<close>

lemma map_of_at_key:
  "map_of (map (\<lambda>kv. if fst kv = k then (k, f (snd kv)) else kv) kvs) k'
     = (if k' = k then map_option f (map_of kvs k) else map_of kvs k')"
  by (induction kvs) auto

lemma subscript_at_key:
  "subscript (at_key k f v) k'
     = (if k' = k then (case subscript v k of Inl e \<Rightarrow> Inl e | Inr w \<Rightarrow> Inr (f w))
        else subscript v k')"
  by (cases v) (auto simp: map_of_at_key split: option.splits)

lemma map_of_del_keys:
  "map_of (filter (\<lambda>kv. fst kv \<notin> set ks) kvs) k = (if k \<in> set ks then None else map_of kvs k)"
  by (induction kvs) auto

lemma subscript_del_keys_other:
  "k \<notin> set ks \<Longrightarrow> subscript (del_keys ks v) k = subscript v k"
  by (cases v) (auto simp: map_of_del_keys)

lemma subscript_del_keys_deleted:
  "k \<in> set ks \<Longrightarrow> subscript (del_keys ks v) k \<noteq> Inr w"
  by (cases v) (auto simp: map_of_del_keys)

lemma without_late_fields_action:
  "subscript (without_late_fields payload) ''action'' = subscript payload ''action''"
  by (simp add: without_late_fields_def subscript_at_key)

lemma without_late_fields_check_suite:
  "subscript (without_late_fields payload) ''check_suite''
     = (case subscript payload ''check_suite'' of
          Inl e \<Rightarrow> Inl e
        | Inr check_suite \<Rightarrow> Inr (del_keys late_check_suite_fields check_suite))"
  by (simp add: without_late_fields_def subscript_at_key)

lemma without_late_fields_repository:
  "subscript (without_late_fields payload) ''repository''
     = (case subscript payload ''repository'' of
          Inl e \<Rightarrow> Inl e
        | Inr repository \<Rightarrow> Inr (del_keys late_repository_fields repository))"
  by (simp add: without_late_fields_def subscript_at_key)

lemma early_fields_are_kept:
  "subscript (del_keys late_check_suite_fields check_suite) ''status''
     = subscript check_suite ''status''"
  "subscript (del_keys late_check_suite_fields check_suite) ''conclusion''
     = subscript check_suite ''conclusion''"
  "subscript (del_keys late_repository_fields repository) ''id'' = subscript repository ''id''"
  by (simp_all add: subscript_del_keys_other late_check_suite_fields_def
        late_repository_fields_def)

lemma without_late_fields_repository_id:
  "lookup_path (without_late_fields payload) [''repository'', ''id'']
     = lookup_path payload [''repository'', ''id'']"
  by (cases "subscript payload ''repository''")
     (simp_all add: without_late_fields_repository early_fields_are_kept)

text \<open>The first four checks come out the same on a payload and on its cut-down copy.\<close>

lemma early_filters_without_late_fields:
  assumes "early_filters lib cfg payload = Inr (Return_ok msg)"
  shows "early_filters lib cfg (without_late_fields payload) = Inr (Return_ok msg)"
proof -
  let ?p = "without_late_fields payload"
  note kept = without_late_fields_action without_late_fields_check_suite early_fields_are_kept
    without_late_fields_repository_id
  consider
    (action) a where "subscript payload ''action'' = Inr a" "a \<noteq> JStr ''completed''"
  | (status) check_suite status where
      "subscript payload ''action'' = Inr (JStr ''completed'')"
      "subscript payload ''check_suite'' = Inr check_suite"
      "subscript check_suite ''status'' = Inr status" "status \<noteq> JStr ''completed''"
  | (conclusion) check_suite concl where
      "subscript payload ''action'' = Inr (JStr ''completed'')"
      "subscript payload ''check_suite'' = Inr check_suite"
      "subscript check_suite ''status'' = Inr (JStr ''completed'')"
      "subscript check_suite ''conclusion'' = Inr concl"
      "\<not> py_in_strs concl [''failure'', ''action_required'', ''timed_out'']"
  | (repository) check_suite concl base_repo_id where
      "subscript payload ''action'' = Inr (JStr ''completed'')"
      "subscript payload ''check_suite'' = Inr check_suite"
      "subscript check_suite ''status'' = Inr (JStr ''completed'')"
      "subscript check_suite ''conclusion'' = Inr concl"
      "py_in_strs concl [''failure'', ''action_required'', ''timed_out'']"
      "lookup_path payload [''repository'', ''id''] = Inr base_repo_id"
      "\<not> py_in_ints base_repo_id (repos cfg)"
    using early_filters_Return_ok_cases [OF assms] by blast
  then show ?thesis
  proof cases
    case action
    then have "early_filters lib cfg ?p = early_filters lib cfg payload"
      by (simp add: early_filters_action kept)
    with assms show ?thesis by simp
  next
    case status
    then have "early_filters lib cfg ?p = early_filters lib cfg payload"
      by (simp add: early_filters_status [where check_suite = check_suite]
            early_filters_status
              [where check_suite = "del_keys late_check_suite_fields check_suite"] kept)
    with assms show ?thesis by simp
  next
    case conclusion
    then have "early_filters lib cfg ?p = early_filters lib cfg payload"
      by (simp add: early_filters_conclusion [where check_suite = check_suite]
            early_filters_conclusion
              [where check_suite = "del_keys late_check_suite_fields check_suite"] kept)
    with assms show ?thesis by simp
  next
    case repository
    then have "early_filters lib cfg ?p = early_filters lib cfg payload"
      by (simp add: early_filters_repository [where check_suite = check_suite]
            early_filters_repository
              [where check_suite = "del_keys late_check_suite_fields check_suite"] kept
            del: lookup_path.simps)
    with assms show ?thesis by simp
  qed
qed

lemma late_fields_are_absent:
  "k \<in> set late_check_suite_fields
     \<Longrightarrow> lookup_path (without_late_fields payload) [''check_suite'', k] \<noteq> Inr v"
  "k \<in> set late_repository_fields
     \<Longrightarrow> lookup_path (without_late_fields payload) [''repository'', k] \<noteq> Inr v"
  by (simp_all add: without_late_fields_check_suite without_late_fields_repository
        subscript_del_keys_deleted and_then_def split: sum.splits)

text \<open>
  Claim C10. Let a payload be stopped by one of the first four checks, with the reply
  \<open>msg\<close>. A request whose body is that payload without \<open>pull_requests\<close>, \<open>head_branch\<close>,
  \<open>head_sha\<close> and \<open>head_commit\<close> in \<open>check_suite\<close> and without \<open>name\<close> and \<open>owner\<close> in
  \<open>repository\<close> gets the same reply, with status 200 and no exception: none of these
  fields is read before the reply is sent.
\<close>

theorem early_reply_reads_no_late_field:
  assumes "early_filters lib cfg payload = Inr (Return_ok msg)"
    and "headers ev ''X-GitHub-Event'' = Some ''check_suite''"
    and "json_loads lib (LambdaHTTPEvent.body ev) = Inr (without_late_fields payload)"
  shows "handler_with lib cfg ev ctx =
     ([''DEBUG: Hello. Event: '' @ repr_event lib ev,
       ''DEBUG: Sending reply: '' @ repr_response lib \<lparr> statusCode = 200, body = msg \<rparr>],
      Inr \<lparr> statusCode = 200, body = msg \<rparr>)
   \<and> (\<forall>k\<in>set late_check_suite_fields. \<forall>v.
         lookup_path (without_late_fields payload) [''check_suite'', k] \<noteq> Inr v)
   \<and> (\<forall>k\<in>set late_repository_fields. \<forall>v.
         lookup_path (without_late_fields payload) [''repository'', k] \<noteq> Inr v)"
proof (intro conjI ballI allI)
  show "handler_with lib cfg ev ctx =
     ([''DEBUG: Hello. Event: '' @ repr_event lib ev,
       ''DEBUG: Sending reply: '' @ repr_response lib \<lparr> statusCode = 200, body = msg \<rparr>],
      Inr \<lparr> statusCode = 200, body = msg \<rparr>)"
    by (rule handler_with_early_reply
          [OF assms(2,3) early_filters_without_late_fields [OF assms(1)]])
next
  fix k v assume "k \<in> set late_check_suite_fields"
  then show "lookup_path (without_late_fields payload) [''check_suite'', k] \<noteq> Inr v"
    by (rule late_fields_are_absent)
next
  fix k v assume "k \<in> set late_repository_fields"
  then show "lookup_path (without_late_fields payload) [''repository'', k] \<noteq> Inr v"
    by (rule late_fields_are_absent)
qed

text \<open>
  A failure in repository 7, which is not watched, on a payload that has every field;
  without the late fields it is the payload of \<open>unwatched_text\<close>.
\<close>

theorem early_reply_reads_no_late_field_witness:
  "without_late_fields
     (JObj [(''action'', JStr ''completed''),
            (''check_suite'', example_check_suite ''failure'' [] ''master'' example_sha),
            (''repository'',
               JObj [(''id'', JInt 7), (''name'', JStr ''crawl''),
                     (''owner'', JObj [(''html_url'', JStr ''https://github.com/crawl'')])])])
     = unwatched_payload
   \<and> snd (handler example_library (example_event ''X-GitHub-Event'' unwatched_text) ())
     = Inr \<lparr> statusCode = 200, body = ''Ignored based on non-watched base repository (7)'' \<rparr>"
proof -
  let ?payload =
    "JObj [(''action'', JStr ''completed''),
           (''check_suite'', example_check_suite ''failure'' [] ''master'' example_sha),
           (''repository'',
              JObj [(''id'', JInt 7), (''name'', JStr ''crawl''),
                    (''owner'', JObj [(''html_url'', JStr ''https://github.com/crawl'')])])]"
  have cut: "without_late_fields ?payload = unwatched_payload"
    by (simp add: without_late_fields_def late_check_suite_fields_def
          late_repository_fields_def example_check_suite_def unwatched_payload_def)
  have early: "early_filters example_library config ?payload
     = Inr (Return_ok ''Ignored based on non-watched base repository (7)'')"
    by (simp add: early_filters_def example_check_suite_def py_in_strs_def py_in_ints_def
          config_def str_int_7)
  have "handler_with example_library config
          (example_event ''X-GitHub-Event'' unwatched_text) () =
     ([''DEBUG: Hello. Event: ''
         @ repr_event example_library (example_event ''X-GitHub-Event'' unwatched_text),
       ''DEBUG: Sending reply: '' @ repr_response example_library
          \<lparr> statusCode = 200,
            body = ''Ignored based on non-watched base repository (7)'' \<rparr>],
      Inr \<lparr> statusCode = 200,
            body = ''Ignored based on non-watched base repository (7)'' \<rparr>)"
    by (rule early_reply_reads_no_late_field [OF early, THEN conjunct1])
       (simp_all add: cut example_loads)
  with cut show ?thesis
    by (simp only: handler_def snd_conv simp_thms)
qed

section \<open>The reply to an alert\<close>

text \<open>
  Claim C4. When the checks end in an alert and the template can be filled, the reply
  has status 200 and its body is the fixed text \<open>{"message": "We cared about this
  message!"}\<close>. The filled template goes to standard output, on the line before the one
  that reports the reply, and the body of the reply does not depend on it.
\<close>

theorem alert_reply_is_fixed:
  assumes "headers ev ''X-GitHub-Event'' = Some ''check_suite''"
    and "json_loads lib (LambdaHTTPEvent.body ev) = Inr payload"
    and "pipeline lib cfg payload (debug (''Hello. Event: '' @ repr_event lib ev) [])
           = (out1, Inr (Continue vars))"
    and "str_format lib (message_template cfg)
           [(''conclusion'', conclusion vars),
            (''commit_desc'', JStr (commit_desc vars)),
            (''committer'', committer vars),
            (''commit_html_url'', JStr (commit_html_url vars))] = Inr message"
  shows \<open>handler_with lib cfg ev ctx =
     (out1 @
      [''DEBUG: Message is: '' @ message,
       ''DEBUG: Sending reply: '' @ repr_response lib
          \<lparr> statusCode = 200, body = ''{"message": "We cared about this message!"}'' \<rparr>],
      Inr \<lparr> statusCode = 200, body = ''{"message": "We cared about this message!"}'' \<rparr>)\<close>
  using assms(3,4)
  by (simp add: handler_with_parsed [OF assms(1,2)] ok_def send_reply_def debug_def)

lemma example_pipeline_with_pr:
  "pipeline example_library config with_pr_payload out
     = (out @ [''DEBUG: Looking for PRs in [23038334, 33104844]'',
               ''DEBUG: PR <object> is a match''],
        Inr (Continue
          \<lparr> conclusion = JStr ''failure'',
            commit_desc = ''PR #42'',
            committer = JStr ''Alice'',
            commit_html_url = ''https://github.com/crawl/crawl/pull/42#partial-pull-merging'' \<rparr>))"
proof -
  let ?pr = "example_pr 42 23038334"
  let ?check_suite = "example_check_suite ''failure'' [?pr] ''master'' example_sha"
  have ints: "repr_ints (repos config) = ''[23038334, 33104844]''"
    by (simp add: repr_ints_def config_def str_int_def str_nat.simps)
  have shown: "py_str (repr example_library) ?pr = ''<object>''"
    by (simp add: example_pr_def example_library_def example_repr_def)
  have "find_matching_pr example_library config
      (example_check_suite ''failure'' ([] @ ?pr # []) ''master'' example_sha) out
     = (out @ [''DEBUG: Looking for PRs in '' @ repr_ints (repos config),
               ''DEBUG: PR '' @ py_str (repr example_library) ?pr @ '' is a match''],
        Inr (Some ?pr))"
    by (rule find_matching_pr_first_match
          [where pre = "[]" and post = "[]" and i = "JInt 23038334"])
       (simp_all add: example_lookups del: lookup_path.simps,
        simp_all add: config_def py_in_ints_def)
  then have found: "find_matching_pr example_library config ?check_suite out
     = (out @ [''DEBUG: Looking for PRs in [23038334, 33104844]'',
               ''DEBUG: PR <object> is a match''],
        Inr (Some ?pr))"
    by (simp only: ints shown append_Nil append_Cons)
  have truthy: "py_truthy ?pr"
    by (simp add: example_pr_def)
  have "pipeline example_library config
      (example_payload ''failure'' [?pr] ''master'' example_sha) out
     = (out @ [''DEBUG: Looking for PRs in [23038334, 33104844]'',
               ''DEBUG: PR <object> is a match''],
        Inr (Continue
          \<lparr> conclusion = JStr ''failure'',
            commit_desc = ''PR #'' @ py_str (repr example_library) (JInt 42),
            committer = JStr ''Alice'',
            commit_html_url =
              py_str (repr example_library) (JStr ''https://github.com/crawl'') @ ''/''
              @ py_str (repr example_library) (JStr ''crawl'')
              @ ''/pull/'' @ py_str (repr example_library) (JInt 42)
              @ ''#partial-pull-merging'' \<rparr>))"
    by (rule pipeline_pr_path [OF example_early_filters found truthy])
       (simp_all only: example_lookups)
  then show ?thesis
    by (simp add: with_pr_payload_def str_int_42)
qed

text \<open>
  A failure with pull request 42 against a watched repository: the message is printed,
  the reply holds the fixed text only.
\<close>

theorem alert_reply_is_fixed_witness:
  \<open>handler example_library (example_event ''X-GitHub-Event'' with_pr_text) () =
     ([''DEBUG: Hello. Event: <event>'',
       ''DEBUG: Looking for PRs in [23038334, 33104844]'',
       ''DEBUG: PR <object> is a match'',
       ''DEBUG: Message is: Build failure at PR #42 (by Alice). ''
         @ ''Details: https://github.com/crawl/crawl/pull/42#partial-pull-merging'',
       ''DEBUG: Sending reply: <response>''],
      Inr \<lparr> statusCode = 200, body = ''{"message": "We cared about this message!"}'' \<rparr>)\<close>
proof -
  let ?ev = "example_event ''X-GitHub-Event'' with_pr_text"
  let ?vars =
    "\<lparr> conclusion = JStr ''failure'',
       commit_desc = ''PR #42'',
       committer = JStr ''Alice'',
       commit_html_url = ''https://github.com/crawl/crawl/pull/42#partial-pull-merging'' \<rparr>"
  let ?message =
    "''Build failure at PR #42 (by Alice). ''
       @ ''Details: https://github.com/crawl/crawl/pull/42#partial-pull-merging''"
  have header: "headers ?ev ''X-GitHub-Event'' = Some ''check_suite''"
    by simp
  have parsed: "json_loads example_library (LambdaHTTPEvent.body ?ev) = Inr with_pr_payload"
    by (simp add: example_loads)
  have filled: "str_format example_library (message_template config)
      [(''conclusion'', conclusion ?vars),
       (''commit_desc'', JStr (commit_desc ?vars)),
       (''committer'', committer ?vars),
       (''commit_html_url'', JStr (commit_html_url ?vars))]
     = Inr ?message"
    by (simp add: example_library_def config_def)
  have \<open>handler_with example_library config ?ev () =
     ((debug (''Hello. Event: '' @ repr_event example_library ?ev) []
        @ [''DEBUG: Looking for PRs in [23038334, 33104844]'',
           ''DEBUG: PR <object> is a match'']) @
      [''DEBUG: Message is: '' @ ?message,
       ''DEBUG: Sending reply: '' @ repr_response example_library
          \<lparr> statusCode = 200, body = ''{"message": "We cared about this message!"}'' \<rparr>],
      Inr \<lparr> statusCode = 200, body = ''{"message": "We cared about this message!"}'' \<rparr>)\<close>
    by (rule alert_reply_is_fixed [OF header parsed example_pipeline_with_pr filled])
  then show ?thesis
    by (simp add: handler_def example_library_def debug_def)
qed

section \<open>The configured conclusions\<close>

text \<open>
  \<open>config["conclusions"]\<close> is declared and documented (``What GitHub check suite
  conclusions should we post about?'') but no line of \<open>handler\<close> reads it: changing the
  field changes nothing in what the handler prints or returns.
\<close>

lemma scan_prs_conclusions:
  "scan_prs lib (cfg\<lparr>conclusions := cs\<rparr>) prs out = scan_prs lib cfg prs out"
  by (induction prs) (simp_all del: lookup_path.simps split: sum.splits)

lemma early_filters_conclusions:
  "early_filters lib (cfg\<lparr>conclusions := cs\<rparr>) payload = early_filters lib cfg payload"
  by (simp add: early_filters_def cong: if_cong)

lemma find_matching_pr_conclusions:
  "find_matching_pr lib (cfg\<lparr>conclusions := cs\<rparr>) check_suite out
     = find_matching_pr lib cfg check_suite out"
  by (simp add: find_matching_pr_def scan_prs_conclusions cong: if_cong sum.case_cong)

lemma build_vars_conclusions:
  "build_vars lib (cfg\<lparr>conclusions := cs\<rparr>) payload check_suite concl matching_pr branch
     = build_vars lib cfg payload check_suite concl matching_pr branch"
  by (simp add: build_vars_def branch_vars_def cong: if_cong option.case_cong)

lemma pipeline_conclusions:
  "pipeline lib (cfg\<lparr>conclusions := cs\<rparr>) payload out = pipeline lib cfg payload out"
  by (simp add: pipeline_def early_filters_conclusions find_matching_pr_conclusions
        build_vars_conclusions
        cong: if_cong sum.case_cong step.case_cong prod.case_cong)

lemma handler_with_conclusions:
  "handler_with lib (cfg\<lparr>conclusions := cs\<rparr>) ev ctx = handler_with lib cfg ev ctx"
  by (simp add: handler_with_def pipeline_conclusions
        cong: if_cong sum.case_cong step.case_cong prod.case_cong option.case_cong)

lemma example_pipeline_timed_out:
  "pipeline example_library config timed_out_payload out
     = (out @ [''DEBUG: Looking for PRs in [23038334, 33104844]'',
               ''DEBUG: Alerting on branch master''],
        Inr (Continue
          \<lparr> conclusion = JStr ''timed_out'',
            commit_desc = ''01234567 (branch master)'',
            committer = JStr ''Alice'',
            commit_html_url = ''https://github.com/crawl/crawl/commit/01234567'' \<rparr>))"
proof -
  let ?check_suite = "example_check_suite ''timed_out'' [] ''master'' example_sha"
  have early: "early_filters example_library config
      (example_payload ''timed_out'' [] ''master'' example_sha)
     = Inr (Continue (?check_suite, JStr ''timed_out''))"
    by (simp add: early_filters_def example_payload_def example_check_suite_def
          example_repository_def py_in_strs_def py_in_ints_def config_def)
  have ints: "repr_ints [23038334, 33104844] = ''[23038334, 33104844]''"
    by (simp add: repr_ints_def str_int_def str_nat.simps)
  have "pipeline example_library config
      (example_payload ''timed_out'' [] ''master'' example_sha) out
     = ((out @ [''DEBUG: Looking for PRs in '' @ repr_ints (repos config)])
          @ [''DEBUG: Alerting on branch '' @ ''master''],
        Inr (Continue
          \<lparr> conclusion = JStr ''timed_out'',
            commit_desc = slice_to example_sha (sha_length config)
              @ '' (branch '' @ ''master'' @ '')'',
            committer = JStr ''Alice'',
            commit_html_url =
              py_str (repr example_library) (JStr ''https://github.com/crawl'') @ ''/''
              @ py_str (repr example_library) (JStr ''crawl'')
              @ ''/commit/'' @ slice_to example_sha (sha_length config) \<rparr>))"
    by (rule pipeline_branch_path [OF early example_find_no_pr])
       (simp_all add: example_lookups del: lookup_path.simps, simp add: config_def)
  then show ?thesis
    by (simp add: timed_out_payload_def ints slice_to_def config_def example_sha_def)
qed

text \<open>
  Claim C1 fails on the code. With \<open>conclusions\<close> set to \<open>failure\<close> alone, a check suite
  that timed out is still answered as an alert; with \<open>conclusions\<close> set to \<open>success\<close> alone,
  a check suite that succeeded is ignored, and the reply names the three conclusions
  written in the code, not the configured one.
\<close>

theorem configured_conclusions_are_not_consulted:
  \<open>\<not> py_in_strs (JStr ''timed_out'') (conclusions (config\<lparr>conclusions := [''failure'']\<rparr>))
   \<and> snd (handler_with example_library (config\<lparr>conclusions := [''failure'']\<rparr>)
          (example_event ''X-GitHub-Event'' timed_out_text) ())
     = Inr \<lparr> statusCode = 200, body = ''{"message": "We cared about this message!"}'' \<rparr>
   \<and> py_in_strs (JStr ''success'') (conclusions (config\<lparr>conclusions := [''success'']\<rparr>))
   \<and> snd (handler_with example_library (config\<lparr>conclusions := [''success'']\<rparr>)
          (example_event ''X-GitHub-Event'' success_text) ())
     = Inr \<lparr> statusCode = 200,
             body = ''Ignored based on check_suite conclusion not in ''
               @ ''('failure', 'action_required', 'timed_out')'' \<rparr>\<close>
proof (intro conjI)
  show "\<not> py_in_strs (JStr ''timed_out'') (conclusions (config\<lparr>conclusions := [''failure'']\<rparr>))"
    by (simp add: py_in_strs_def)
  show "py_in_strs (JStr ''success'') (conclusions (config\<lparr>conclusions := [''success'']\<rparr>))"
    by (simp add: py_in_strs_def)
  have filled: "str_format example_library (message_template config)
      [(''conclusion'', JStr ''timed_out''),
       (''commit_desc'', JStr ''01234567 (branch master)''),
       (''committer'', JStr ''Alice''),
       (''commit_html_url'', JStr ''https://github.com/crawl/crawl/commit/01234567'')]
     = Inr (''Build timed_out at 01234567 (branch master) (by Alice). ''
         @ ''Details: https://github.com/crawl/crawl/commit/01234567'')"
    by (simp add: example_library_def config_def)
  show \<open>snd (handler_with example_library (config\<lparr>conclusions := [''failure'']\<rparr>)
          (example_event ''X-GitHub-Event'' timed_out_text) ())
     = Inr \<lparr> statusCode = 200, body = ''{"message": "We cared about this message!"}'' \<rparr>\<close>
    unfolding handler_with_conclusions
    by (simp add: handler_with_parsed [where payload = timed_out_payload] example_loads
          example_pipeline_timed_out filled snd_ok)
  have early: "early_filters example_library config success_payload
     = Inr (Return_ok (''Ignored based on check_suite conclusion not in ''
               @ ''('failure', 'action_required', 'timed_out')''))"
    by (simp add: early_filters_def success_payload_def py_in_strs_def)
  show "snd (handler_with example_library (config\<lparr>conclusions := [''success'']\<rparr>)
          (example_event ''X-GitHub-Event'' success_text) ())
     = Inr \<lparr> statusCode = 200,
             body = ''Ignored based on check_suite conclusion not in ''
               @ ''('failure', 'action_required', 'timed_out')'' \<rparr>"
    unfolding handler_with_conclusions
    by (simp add: handler_with_early_reply [OF _ _ early] example_loads)
qed

end
